theory Spec2Isabelle
  imports Complex_Main "HOL-Library.AList"
begin

section \<open>JavaScript values\<close>

text \<open>
  The import pipeline (class \<open>ProductionDataImporter\<close>) works on GeoJSON geometries and
  attribute bags, which are plain JavaScript values.  A JavaScript number is a double: it is
  either finite, one of the two infinities, or NaN.  A finite double is modelled by its
  rational value, so that comparisons are exact.  The only arithmetic the importer performs
  on numbers is the sum of three percentages; the sum of two doubles is the exact sum
  rounded to the nearest double (IEEE 754 binary64, ties to even, an infinity on overflow),
  which \<open>roundDouble\<close> computes.  Zero is not signed: no comparison tells \<open>-0\<close> from
  \<open>0\<close>.
\<close>

datatype jsnum = Fin rat | PosInf | NegInf | NaN

fun js_lt :: "jsnum \<Rightarrow> jsnum \<Rightarrow> bool" where
  "js_lt NaN _ = False"
| "js_lt _ NaN = False"
| "js_lt (Fin a) (Fin b) = (a < b)"
| "js_lt _ NegInf = False"
| "js_lt NegInf _ = True"
| "js_lt PosInf _ = False"
| "js_lt (Fin a) PosInf = True"

fun js_le :: "jsnum \<Rightarrow> jsnum \<Rightarrow> bool" where
  "js_le NaN _ = False"
| "js_le _ NaN = False"
| "js_le (Fin a) (Fin b) = (a \<le> b)"
| "js_le NegInf _ = True"
| "js_le _ PosInf = True"
| "js_le PosInf _ = False"
| "js_le (Fin a) NegInf = False"

definition js_gt :: "jsnum \<Rightarrow> jsnum \<Rightarrow> bool" where
  "js_gt a b = js_lt b a"

definition js_ge :: "jsnum \<Rightarrow> jsnum \<Rightarrow> bool" where
  "js_ge a b = js_le b a"

text \<open>
  Rounding of a rational to a double.  \<open>bitLength n\<close> is the number of binary digits of
  a positive integer, \<open>pow2 e\<close> the power of two with exponent \<open>e\<close>, and
  \<open>binaryExponent q\<close>, for a positive \<open>q\<close>, the exponent of the greatest power of two
  that is at most \<open>q\<close>.  A double has 53 significant binary digits, and its last digit
  has a weight of at least \<open>pow2 (- 1074)\<close>; a rounded magnitude of \<open>pow2 1024\<close> or more,
  that is, of binary exponent 1024 or more, is an infinity.  \<open>roundDouble\<close> is also the
  value of a decimal literal of the source, such as \<open>47.8\<close> or \<open>0.001\<close>.
\<close>

function bitLength :: "int \<Rightarrow> nat" where
  "bitLength n = (if n \<le> 0 then 0 else Suc (bitLength (n div 2)))"
  by pat_completeness auto
termination
  by (relation "measure nat") auto

declare bitLength.simps [simp del]

definition pow2 :: "int \<Rightarrow> rat" where
  "pow2 e = (if e \<ge> 0 then 2 ^ nat e else 1 / 2 ^ nat (- e))"

definition binaryExponent :: "rat \<Rightarrow> int" where
  "binaryExponent q =
     (let (p, d) = quotient_of q;
          e = int (bitLength p) - int (bitLength d)
      in if q < pow2 e then e - 1 else e)"

definition roundHalfEven :: "rat \<Rightarrow> int" where
  "roundHalfEven m =
     (let f = \<lfloor>m\<rfloor>; r = m - of_int f
      in if r < 1 / 2 then f else if r > 1 / 2 then f + 1 else if even f then f else f + 1)"

definition roundDouble :: "rat \<Rightarrow> jsnum" where
  "roundDouble q =
     (if q = 0 then Fin 0
      else
        (let a = \<bar>q\<bar>;
             u = max (binaryExponent a - 52) (- 1074);
             v = of_int (roundHalfEven (a / pow2 u)) * pow2 u
         in if binaryExponent v \<ge> 1024 then (if q < 0 then NegInf else PosInf)
            else Fin (if q < 0 then - v else v)))"


datatype json =
    JNull
  | JUndefined
  | JBool bool
  | JNum jsnum
  | JStr string
  | JArr "json list"
  | JObj "(string \<times> json) list"

text \<open>The only exception the modelled code can raise by itself is a \<open>TypeError\<close>
  (reading a property of \<open>null\<close> or \<open>undefined\<close>, calling a method that is not there);
  \<open>LibraryError\<close> stands for whatever an external library throws.\<close>

datatype error = TypeError | LibraryError

text \<open>\<open>!v\<close> is \<open>\<not> truthy v\<close>.\<close>

fun truthy :: "json \<Rightarrow> bool" where
  "truthy JNull = False"
| "truthy JUndefined = False"
| "truthy (JBool b) = b"
| "truthy (JNum n) = (n \<noteq> NaN \<and> n \<noteq> Fin 0)"
| "truthy (JStr s) = (s \<noteq> [])"
| "truthy (JArr _) = True"
| "truthy (JObj _) = True"

fun isArray :: "json \<Rightarrow> bool" where
  "isArray (JArr _) = True"
| "isArray _ = False"

text \<open>\<open>v.name\<close> for one of the field names the importer reads (\<open>type\<close>, \<open>coordinates\<close>,
  \<open>geometry\<close>): a \<open>TypeError\<close> on \<open>null\<close> and \<open>undefined\<close>, the stored value on an object that
  has the field, \<open>undefined\<close> otherwise.\<close>

fun getField :: "json \<Rightarrow> string \<Rightarrow> error + json" where
  "getField JNull _ = Inl TypeError"
| "getField JUndefined _ = Inl TypeError"
| "getField (JObj ps) name = (case map_of ps name of Some v \<Rightarrow> Inr v | None \<Rightarrow> Inr JUndefined)"
| "getField _ _ = Inr JUndefined"

text \<open>\<open>obj.name = v\<close> on an object: an existing field keeps its place, a new one is added
  at the end.\<close>

fun setField :: "json \<Rightarrow> string \<Rightarrow> json \<Rightarrow> error + json" where
  "setField (JObj ps) name v = Inr (JObj (AList.update name v ps))"
| "setField _ _ _ = Inl TypeError"

text \<open>\<open>JSON.parse(JSON.stringify(v))\<close>: a deep copy in which non-finite numbers and
  \<open>undefined\<close> array elements become \<open>null\<close> and \<open>undefined\<close> fields disappear.\<close>

fun jsonCopy :: "json \<Rightarrow> json" where
  "jsonCopy (JNum (Fin r)) = JNum (Fin r)"
| "jsonCopy (JNum _) = JNull"
| "jsonCopy JUndefined = JNull"
| "jsonCopy (JArr xs) = JArr (map jsonCopy xs)"
| "jsonCopy (JObj ps) =
     JObj (map (\<lambda>(k, v). (k, jsonCopy v)) (filter (\<lambda>(k, v). v \<noteq> JUndefined) ps))"
| "jsonCopy v = v"

section \<open>Coordinate checks\<close>

text \<open>
  \<^verbatim>\<open>
  isValidWGS84(coords) {
      if (!Array.isArray(coords) || coords.length < 2) return false;
      return (typeof coords[0] === 'number' && typeof coords[1] === 'number' &&
              coords[0] >= -180 && coords[0] <= 180 &&
              coords[1] >= -90 && coords[1] <= 90);
  }\<close>
\<close>

definition isValidWGS84 :: "json \<Rightarrow> bool" where
  "isValidWGS84 coords =
     (case coords of
        JArr xs \<Rightarrow>
          if length xs < 2 then False
          else (case (xs ! 0, xs ! 1) of
                  (JNum c0, JNum c1) \<Rightarrow>
                    js_ge c0 (Fin (- 180)) \<and> js_le c0 (Fin 180) \<and>
                    js_ge c1 (Fin (- 90)) \<and> js_le c1 (Fin 90)
                | _ \<Rightarrow> False)
      | _ \<Rightarrow> False)"

text \<open>
  \<^verbatim>\<open>
  extractFirstCoordinate(geometry) {
      if (!geometry || !geometry.coordinates) return [];
      let coords = geometry.coordinates;
      while (Array.isArray(coords[0])) { coords = coords[0]; }
      return coords;
  }\<close>
  \<open>firstCoordinateLoop\<close> is the \<open>while\<close> loop.  \<open>coords[0]\<close> raises on \<open>null\<close> and
  \<open>undefined\<close>, is the first element of an array (\<open>undefined\<close> when it is empty), the field
  \<open>"0"\<close> of an object, a one-character string on a string, and \<open>undefined\<close> on numbers and
  booleans.
\<close>

function firstCoordinateLoop :: "json \<Rightarrow> error + json" where
  "firstCoordinateLoop JNull = Inl TypeError"
| "firstCoordinateLoop JUndefined = Inl TypeError"
| "firstCoordinateLoop (JArr []) = Inr (JArr [])"
| "firstCoordinateLoop (JArr (c0 # rest)) =
     (if isArray c0 then firstCoordinateLoop c0 else Inr (JArr (c0 # rest)))"
| "firstCoordinateLoop (JObj ps) =
     (case map_of ps ''0'' of
        Some c0 \<Rightarrow> if isArray c0 then firstCoordinateLoop c0 else Inr (JObj ps)
      | None \<Rightarrow> Inr (JObj ps))"
| "firstCoordinateLoop (JBool b) = Inr (JBool b)"
| "firstCoordinateLoop (JNum n) = Inr (JNum n)"
| "firstCoordinateLoop (JStr s) = Inr (JStr s)"
  by pat_completeness auto
termination
proof (relation "measure size", goal_cases)
  case 1
  show ?case by simp
next
  case (2 c0 rest)
  show ?case by simp
next
  case (3 ps c0)
  have "map_of qs k = Some v \<Longrightarrow> size v < Suc (size_list (size_prod (\<lambda>_. 0) size) qs)"
    for qs :: "(string \<times> json) list" and k v
    by (induction qs) (auto split: if_splits)
  with 3 show ?case by auto
qed

definition extractFirstCoordinate :: "json \<Rightarrow> error + json" where
  "extractFirstCoordinate geometry =
     (if \<not> truthy geometry then Inr (JArr [])
      else case getField geometry ''coordinates'' of
             Inl e \<Rightarrow> Inl e
           | Inr coords \<Rightarrow>
               if \<not> truthy coords then Inr (JArr []) else firstCoordinateLoop coords)"

text \<open>
  \<^verbatim>\<open>
  isWGS84(geometry) {
      const coords = this.extractFirstCoordinate(geometry);
      return this.isValidWGS84(coords);
  }
  extractCoordinates(geometry) {
      const coords = this.extractFirstCoordinate(geometry);
      return this.isValidWGS84(coords) ? coords : [13.5, 47.8];
  }\<close>
\<close>

definition isWGS84 :: "json \<Rightarrow> error + bool" where
  "isWGS84 geometry =
     (case extractFirstCoordinate geometry of
        Inl e \<Rightarrow> Inl e
      | Inr coords \<Rightarrow> Inr (isValidWGS84 coords))"

definition defaultCoordinates :: json where
  "defaultCoordinates = JArr [JNum (roundDouble (27 / 2)), JNum (roundDouble (239 / 5))]"

definition extractCoordinates :: "json \<Rightarrow> error + json" where
  "extractCoordinates geometry =
     (case extractFirstCoordinate geometry of
        Inl e \<Rightarrow> Inl e
      | Inr coords \<Rightarrow> Inr (if isValidWGS84 coords then coords else defaultCoordinates))"

section \<open>Structural validity\<close>

text \<open>
  \<^verbatim>\<open>
  isValidGeoJSON(geometry) {
      if (!geometry || !geometry.type || !geometry.coordinates) return false;
      try {
          const checkCoords = (coords) => {
              if (Array.isArray(coords[0])) { return coords.every(checkCoords); }
              return coords.length === 2 &&
                     coords.every(c => typeof c === 'number' && isFinite(c));
          };
          return checkCoords(geometry.coordinates);
      } catch (e) { return false; }
  }\<close>
  \<open>everyCheckCoords\<close> is \<open>coords.every(checkCoords)\<close> on an array: it stops at the first
  element that fails or raises.  Only arrays have \<open>every\<close>: on an object whose field
  \<open>"0"\<close> is an array, and on a string or an object of length 2, the call is a
  \<open>TypeError\<close>.
\<close>

fun isFiniteNumber :: "json \<Rightarrow> bool" where
  "isFiniteNumber (JNum (Fin _)) = True"
| "isFiniteNumber _ = False"

fun checkCoords :: "json \<Rightarrow> error + bool"
  and everyCheckCoords :: "json list \<Rightarrow> error + bool" where
  "checkCoords JNull = Inl TypeError"
| "checkCoords JUndefined = Inl TypeError"
| "checkCoords (JArr []) = Inr False"
| "checkCoords (JArr (c0 # rest)) =
     (if isArray c0 then everyCheckCoords (c0 # rest)
      else Inr (length (c0 # rest) = 2 \<and> list_all isFiniteNumber (c0 # rest)))"
| "checkCoords (JObj ps) =
     (case map_of ps ''0'' of
        Some c0 \<Rightarrow>
          if isArray c0 then Inl TypeError
          else if map_of ps ''length'' = Some (JNum (Fin 2)) then Inl TypeError
          else Inr False
      | None \<Rightarrow>
          if map_of ps ''length'' = Some (JNum (Fin 2)) then Inl TypeError else Inr False)"
| "checkCoords (JStr s) = (if length s = 2 then Inl TypeError else Inr False)"
| "checkCoords (JBool b) = Inr False"
| "checkCoords (JNum n) = Inr False"
| "everyCheckCoords [] = Inr True"
| "everyCheckCoords (c # cs) =
     (case checkCoords c of
        Inl e \<Rightarrow> Inl e
      | Inr ok \<Rightarrow> if ok then everyCheckCoords cs else Inr False)"

definition isValidGeoJSON :: "json \<Rightarrow> bool" where
  "isValidGeoJSON geometry =
     (if \<not> truthy geometry then False
      else case getField geometry ''type'' of
             Inl e \<Rightarrow> False
           | Inr ty \<Rightarrow>
               if \<not> truthy ty then False
               else case getField geometry ''coordinates'' of
                      Inl e \<Rightarrow> False
                    | Inr coords \<Rightarrow>
                        if \<not> truthy coords then False
                        else case checkCoords coords of
                               Inl e \<Rightarrow> False
                             | Inr ok \<Rightarrow> ok)"

text \<open>
  \<^verbatim>\<open>
  getGeometryComplexity(geometry) {
      let count = 0;
      const countCoords = (coords) => {
          if (Array.isArray(coords[0])) { coords.forEach(c => countCoords(c)); }
          else { count++; }
      };
      countCoords(geometry.coordinates);
      return count;
  }\<close>
  The counter is passed through the recursion.
\<close>

fun countCoords :: "json \<Rightarrow> nat \<Rightarrow> error + nat"
  and forEachCountCoords :: "json list \<Rightarrow> nat \<Rightarrow> error + nat" where
  "countCoords JNull count = Inl TypeError"
| "countCoords JUndefined count = Inl TypeError"
| "countCoords (JArr []) count = Inr (Suc count)"
| "countCoords (JArr (c0 # rest)) count =
     (if isArray c0 then forEachCountCoords (c0 # rest) count else Inr (Suc count))"
| "countCoords (JObj ps) count =
     (case map_of ps ''0'' of
        Some c0 \<Rightarrow> if isArray c0 then Inl TypeError else Inr (Suc count)
      | None \<Rightarrow> Inr (Suc count))"
| "countCoords (JStr s) count = Inr (Suc count)"
| "countCoords (JBool b) count = Inr (Suc count)"
| "countCoords (JNum n) count = Inr (Suc count)"
| "forEachCountCoords [] count = Inr count"
| "forEachCountCoords (c # cs) count =
     (case countCoords c count of
        Inl e \<Rightarrow> Inl e
      | Inr count' \<Rightarrow> forEachCountCoords cs count')"

definition getGeometryComplexity :: "json \<Rightarrow> error + nat" where
  "getGeometryComplexity geometry =
     (case getField geometry ''coordinates'' of
        Inl e \<Rightarrow> Inl e
      | Inr coords \<Rightarrow> countCoords coords 0)"

section \<open>Coordinate transformation\<close>

text \<open>
  The projection library is not part of the repository.  A value of type \<open>proj4\<close> stands
  for it: \<open>P name coords\<close> is what
  \<open>proj4(this.projections[name], 'EPSG:4326').forward(coords)\<close> returns, or the exception it
  throws.
  \<^verbatim>\<open>
  tryTransform(coords, fromProj) {
      try {
          const transformer = proj4(this.projections[fromProj], 'EPSG:4326');
          return transformer.forward(coords);
      } catch (e) { return null; }
  }\<close>
\<close>

type_synonym proj4 = "string \<Rightarrow> json \<Rightarrow> error + json"

definition tryTransform :: "proj4 \<Rightarrow> json \<Rightarrow> string \<Rightarrow> json" where
  "tryTransform P coords fromProj =
     (case P fromProj coords of Inl e \<Rightarrow> JNull | Inr r \<Rightarrow> r)"

text \<open>
  The body of \<open>transformCoords\<close> for a leaf (\<open>coords[0]\<close> is not an array):
  \<^verbatim>\<open>
      let result = this.tryTransform(coords, 'EPSG:31287');
      if (!this.isValidWGS84(result)) {
          result = this.tryTransform(coords, 'EPSG:31259');
      }
      return result || coords;\<close>
\<close>

definition transformLeaf :: "proj4 \<Rightarrow> json \<Rightarrow> json" where
  "transformLeaf P coords =
     (let result = tryTransform P coords ''EPSG:31287'';
          result = (if \<not> isValidWGS84 result then tryTransform P coords ''EPSG:31259''
                    else result)
      in if truthy result then result else coords)"

text \<open>
  \<^verbatim>\<open>
  transformGeometry(geometry) {
      if (!geometry) return null;
      if (this.isWGS84(geometry)) return geometry;
      const transformed = JSON.parse(JSON.stringify(geometry));
      const transformCoords = (coords) => {
          if (Array.isArray(coords[0])) { return coords.map(c => transformCoords(c)); }
          ... the leaf ...
      };
      transformed.coordinates = transformCoords(geometry.coordinates);
      return transformed;
  }\<close>
  \<open>mapTransformCoords\<close> is \<open>coords.map(c => transformCoords(c))\<close> on an array; an object
  whose field \<open>"0"\<close> is an array has no \<open>map\<close>.
\<close>

fun transformCoords :: "proj4 \<Rightarrow> json \<Rightarrow> error + json"
  and mapTransformCoords :: "proj4 \<Rightarrow> json list \<Rightarrow> error + json list" where
  "transformCoords P JNull = Inl TypeError"
| "transformCoords P JUndefined = Inl TypeError"
| "transformCoords P (JArr []) = Inr (transformLeaf P (JArr []))"
| "transformCoords P (JArr (c0 # rest)) =
     (if isArray c0 then
        (case mapTransformCoords P (c0 # rest) of
           Inl e \<Rightarrow> Inl e
         | Inr rs \<Rightarrow> Inr (JArr rs))
      else Inr (transformLeaf P (JArr (c0 # rest))))"
| "transformCoords P (JObj ps) =
     (case map_of ps ''0'' of
        Some c0 \<Rightarrow> if isArray c0 then Inl TypeError else Inr (transformLeaf P (JObj ps))
      | None \<Rightarrow> Inr (transformLeaf P (JObj ps)))"
| "transformCoords P (JStr s) = Inr (transformLeaf P (JStr s))"
| "transformCoords P (JBool b) = Inr (transformLeaf P (JBool b))"
| "transformCoords P (JNum n) = Inr (transformLeaf P (JNum n))"
| "mapTransformCoords P [] = Inr []"
| "mapTransformCoords P (c # cs) =
     (case transformCoords P c of
        Inl e \<Rightarrow> Inl e
      | Inr r \<Rightarrow>
          (case mapTransformCoords P cs of
             Inl e \<Rightarrow> Inl e
           | Inr rs \<Rightarrow> Inr (r # rs)))"

definition transformGeometry :: "proj4 \<Rightarrow> json \<Rightarrow> error + json" where
  "transformGeometry P geometry =
     (if \<not> truthy geometry then Inr JNull
      else case isWGS84 geometry of
             Inl e \<Rightarrow> Inl e
           | Inr True \<Rightarrow> Inr geometry
           | Inr False \<Rightarrow>
               (let transformed = jsonCopy geometry in
                case getField geometry ''coordinates'' of
                  Inl e \<Rightarrow> Inl e
                | Inr coords \<Rightarrow>
                    (case transformCoords P coords of
                       Inl e \<Rightarrow> Inl e
                     | Inr cs \<Rightarrow> setField transformed ''coordinates'' cs)))"

section \<open>Area-of-interest filter\<close>

text \<open>
  A bounding box is the array \<open>[minLon, minLat, maxLon, maxLat]\<close> that \<open>turf.bbox\<close> returns;
  the fields of the record are its indices 0 to 3.  \<open>this.areaOfInterestBounds\<close> is \<open>null\<close>
  (\<open>None\<close>) or such an array.
  \<^verbatim>\<open>
  isWithinAreaBounds(longitude, latitude) {
      if (!this.areaOfInterestBounds) return true;
      return longitude >= this.areaOfInterestBounds[0] &&
             longitude <= this.areaOfInterestBounds[2] &&
             latitude >= this.areaOfInterestBounds[1] &&
             latitude <= this.areaOfInterestBounds[3];
  }
  boundsIntersectArea(bounds) {
      if (!bounds || !this.areaOfInterestBounds) return true;
      return !(bounds[2] < this.areaOfInterestBounds[0] ||
               bounds[0] > this.areaOfInterestBounds[2] ||
               bounds[3] < this.areaOfInterestBounds[1] ||
               bounds[1] > this.areaOfInterestBounds[3]);
  }\<close>
\<close>

record bbox =
  minLon :: jsnum
  minLat :: jsnum
  maxLon :: jsnum
  maxLat :: jsnum

definition isWithinAreaBounds :: "bbox option \<Rightarrow> jsnum \<Rightarrow> jsnum \<Rightarrow> bool" where
  "isWithinAreaBounds areaOfInterestBounds longitude latitude =
     (case areaOfInterestBounds of
        None \<Rightarrow> True
      | Some area \<Rightarrow>
          js_ge longitude (minLon area) \<and> js_le longitude (maxLon area) \<and>
          js_ge latitude (minLat area) \<and> js_le latitude (maxLat area))"

definition boundsIntersectArea :: "bbox option \<Rightarrow> bbox option \<Rightarrow> bool" where
  "boundsIntersectArea areaOfInterestBounds bounds =
     (case bounds of
        None \<Rightarrow> True
      | Some b \<Rightarrow>
          (case areaOfInterestBounds of
             None \<Rightarrow> True
           | Some area \<Rightarrow>
               \<not> (js_lt (maxLon b) (minLon area) \<or> js_gt (minLon b) (maxLon area) \<or>
                  js_lt (maxLat b) (minLat area) \<or> js_gt (minLat b) (maxLat area))))"

text \<open>
  The geometry library is not part of the repository either.  \<open>B geometry\<close> stands for
  \<open>turf.bbox(geometry)\<close> and \<open>S geometry tolerance\<close> for
  \<open>turf.simplify(turf.feature(geometry), {tolerance})\<close>, a feature.
  \<^verbatim>\<open>
  getGeometryBounds(geometry) {
      try { return turf.bbox(geometry); } catch (error) { return null; }
  }
  simplifyGeometry(geometry, tolerance = 0.001) {
      try { return turf.simplify(turf.feature(geometry), {tolerance}).geometry; }
      catch (error) { return geometry; }
  }\<close>
\<close>

type_synonym turf_bbox = "json \<Rightarrow> error + bbox"
type_synonym turf_simplify = "json \<Rightarrow> jsnum \<Rightarrow> error + json"

definition getGeometryBounds :: "turf_bbox \<Rightarrow> json \<Rightarrow> bbox option" where
  "getGeometryBounds B geometry = (case B geometry of Inl e \<Rightarrow> None | Inr b \<Rightarrow> Some b)"

definition simplifyAttempt :: "turf_simplify \<Rightarrow> json \<Rightarrow> jsnum \<Rightarrow> error + json" where
  "simplifyAttempt S geometry tolerance =
     (case S geometry tolerance of
        Inl e \<Rightarrow> Inl e
      | Inr feature \<Rightarrow> getField feature ''geometry'')"

definition simplifyGeometry :: "turf_simplify \<Rightarrow> json \<Rightarrow> jsnum \<Rightarrow> error + json" where
  "simplifyGeometry S geometry tolerance =
     (case simplifyAttempt S geometry tolerance of
        Inl e \<Rightarrow> Inr geometry
      | Inr g \<Rightarrow> Inr g)"

text \<open>
  \<open>loadAreaBounds\<close> reads the boundary files in turn; a file that does not exist is
  \<open>None\<close>.  Within a file the features are visited by \<open>forEach\<close> inside one \<open>try\<close>: an
  exception ends that file, and the box widened so far is kept.
  \<^verbatim>\<open>
      const geometry = this.transformGeometry(feature.geometry);
      if (this.isValidGeoJSON(geometry)) {
          const bounds = turf.bbox(turf.feature(geometry));
          if (!combinedBounds) { combinedBounds = bounds; }
          else {
              combinedBounds[0] = Math.min(combinedBounds[0], bounds[0]);
              combinedBounds[1] = Math.min(combinedBounds[1], bounds[1]);
              combinedBounds[2] = Math.max(combinedBounds[2], bounds[2]);
              combinedBounds[3] = Math.max(combinedBounds[3], bounds[3]);
          }
      }\<close>
\<close>

definition js_min :: "jsnum \<Rightarrow> jsnum \<Rightarrow> jsnum" where
  "js_min a b = (if a = NaN \<or> b = NaN then NaN else if js_le a b then a else b)"

definition js_max :: "jsnum \<Rightarrow> jsnum \<Rightarrow> jsnum" where
  "js_max a b = (if a = NaN \<or> b = NaN then NaN else if js_le a b then b else a)"

definition widenBounds :: "bbox option \<Rightarrow> bbox \<Rightarrow> bbox option" where
  "widenBounds combinedBounds bounds =
     (case combinedBounds of
        None \<Rightarrow> Some bounds
      | Some c \<Rightarrow>
          Some \<lparr>minLon = js_min (minLon c) (minLon bounds),
                minLat = js_min (minLat c) (minLat bounds),
                maxLon = js_max (maxLon c) (maxLon bounds),
                maxLat = js_max (maxLat c) (maxLat bounds)\<rparr>)"

fun boundsOfFeatures :: "proj4 \<Rightarrow> turf_bbox \<Rightarrow> json list \<Rightarrow> bbox option \<Rightarrow> bbox option" where
  "boundsOfFeatures P B [] combinedBounds = combinedBounds"
| "boundsOfFeatures P B (feature # features) combinedBounds =
     (case getField feature ''geometry'' of
        Inl e \<Rightarrow> combinedBounds
      | Inr g \<Rightarrow>
          (case transformGeometry P g of
             Inl e \<Rightarrow> combinedBounds
           | Inr geometry \<Rightarrow>
               if isValidGeoJSON geometry then
                 (case B geometry of
                    Inl e \<Rightarrow> combinedBounds
                  | Inr bounds \<Rightarrow>
                      boundsOfFeatures P B features (widenBounds combinedBounds bounds))
               else boundsOfFeatures P B features combinedBounds))"

fun loadAreaBounds :: "proj4 \<Rightarrow> turf_bbox \<Rightarrow> json list option list \<Rightarrow> bbox option \<Rightarrow> bbox option" where
  "loadAreaBounds P B [] combinedBounds = combinedBounds"
| "loadAreaBounds P B (None # files) combinedBounds = loadAreaBounds P B files combinedBounds"
| "loadAreaBounds P B (Some features # files) combinedBounds =
     loadAreaBounds P B files (boundsOfFeatures P B features combinedBounds)"

section \<open>Import statistics\<close>

record stats =
  co2Sources :: nat
  votingDistricts :: nat
  landfills :: nat
  gravelPits :: nat
  wastewaterPlants :: nat
  gasPipelines :: nat
  gasStorage :: nat
  gasDistribution :: nat
  compressorStations :: nat
  groundwaterAreas :: nat
  conservationAreas :: nat
  residentialAreas :: nat
  roads :: nat
  railways :: nat
  errors :: nat
  filteredOutByArea :: nat

definition initialStats :: stats where
  "initialStats =
     \<lparr>co2Sources = 0, votingDistricts = 0, landfills = 0, gravelPits = 0,
      wastewaterPlants = 0, gasPipelines = 0, gasStorage = 0, gasDistribution = 0,
      compressorStations = 0, groundwaterAreas = 0, conservationAreas = 0,
      residentialAreas = 0, roads = 0, railways = 0, errors = 0, filteredOutByArea = 0\<rparr>"

text \<open>\<open>a || b\<close> on values, and \<open>x || 0\<close> on a number.\<close>

definition orElse :: "json \<Rightarrow> json \<Rightarrow> json" where
  "orElse a b = (if truthy a then a else b)"


text \<open>\<open>row[name]\<close> on an attribute bag, which the readers always deliver as an object.\<close>

definition cell :: "(string \<times> json) list \<Rightarrow> string \<Rightarrow> json" where
  "cell row name = (case map_of row name of Some v \<Rightarrow> v | None \<Rightarrow> JUndefined)"

text \<open>The built-in \<open>parseFloat\<close> is a parameter \<open>pf\<close> of the importers.\<close>

type_synonym parseFloat = "json \<Rightarrow> jsnum"


section \<open>Voting districts\<close>




section \<open>CO2 sources\<close>

text \<open>
  \<^verbatim>\<open>
  let imported = 0; let filtered = 0;
  for (const row of data) {
      const longitude = parseFloat(row['Longitude']);
      const latitude = parseFloat(row['Latitude']);
      if (!this.isValidWGS84([longitude, latitude])) continue;
      if (!this.isWithinAreaBounds(longitude, latitude)) { filtered++; continue; }
      const totalCO2 = parseFloat(row['Total_CO2_t'] || 0);
      const isProminent = totalCO2 > 50000;
      await this.client.query(`INSERT INTO co2_sources (...)`, [
          row['Plant Name'], row['Plant Type'], totalCO2,
          parseFloat(row['Fossil_CO2_t'] || 0), parseFloat(row['Biogenic_CO2_t'] || 0),
          row['Comment'] || '', isProminent, isProminent ? 4 : 2,
          longitude, latitude, JSON.stringify(row) ]);
      imported++;
  }
  this.stats.co2Sources = imported;
  this.stats.filteredOutByArea += filtered;\<close>
  The whole loop runs inside one \<open>try\<close>: when the database rejects an insert, the loop ends
  and the two statistics are not written.  The database is a parameter: \<open>accepts r\<close> says
  whether the insert of \<open>r\<close> succeeds; \<open>inserted\<close> is the list of rows inserted.
\<close>

record co2Source =
  plant_name :: json
  plant_type :: json
  total_co2_t :: jsnum
  fossil_co2_t :: jsnum
  biogenic_co2_t :: jsnum
  comment :: json
  is_prominent :: bool
  pin_size :: nat
  co2_longitude :: jsnum
  co2_latitude :: jsnum
  co2_properties :: "(string \<times> json) list"

datatype 'r outcome = Rejected | Filtered | Insert 'r

definition co2SourceValues ::
  "parseFloat \<Rightarrow> (string \<times> json) list \<Rightarrow> jsnum \<Rightarrow> jsnum \<Rightarrow> co2Source" where
  "co2SourceValues pf row longitude latitude =
     (let totalCO2 = pf (orElse (cell row ''Total_CO2_t'') (JNum (Fin 0)));
          isProminent = js_gt totalCO2 (Fin 50000)
      in \<lparr>plant_name = cell row ''Plant Name'', plant_type = cell row ''Plant Type'',
          total_co2_t = totalCO2,
          fossil_co2_t = pf (orElse (cell row ''Fossil_CO2_t'') (JNum (Fin 0))),
          biogenic_co2_t = pf (orElse (cell row ''Biogenic_CO2_t'') (JNum (Fin 0))),
          comment = orElse (cell row ''Comment'') (JStr []),
          is_prominent = isProminent, pin_size = (if isProminent then 4 else 2),
          co2_longitude = longitude, co2_latitude = latitude, co2_properties = row\<rparr>)"

definition co2SourceRow ::
  "parseFloat \<Rightarrow> bbox option \<Rightarrow> (string \<times> json) list \<Rightarrow> co2Source outcome" where
  "co2SourceRow pf areaOfInterestBounds row =
     (let longitude = pf (cell row ''Longitude'');
          latitude = pf (cell row ''Latitude'')
      in if \<not> isValidWGS84 (JArr [JNum longitude, JNum latitude]) then Rejected
         else if \<not> isWithinAreaBounds areaOfInterestBounds longitude latitude then Filtered
         else Insert (co2SourceValues pf row longitude latitude))"

record 'r importRun =
  imported :: nat
  filtered :: nat
  inserted :: "'r list"

fun co2SourcesLoop ::
  "parseFloat \<Rightarrow> (co2Source \<Rightarrow> bool) \<Rightarrow> bbox option \<Rightarrow> (string \<times> json) list list \<Rightarrow>
   co2Source importRun \<Rightarrow> (error \<times> co2Source importRun) + co2Source importRun" where
  "co2SourcesLoop pf accepts area [] run = Inr run"
| "co2SourcesLoop pf accepts area (row # data) run =
     (case co2SourceRow pf area row of
        Rejected \<Rightarrow> co2SourcesLoop pf accepts area data run
      | Filtered \<Rightarrow> co2SourcesLoop pf accepts area data (run\<lparr>filtered := Suc (filtered run)\<rparr>)
      | Insert r \<Rightarrow>
          if accepts r then
            co2SourcesLoop pf accepts area data
              (run\<lparr>imported := Suc (imported run), inserted := inserted run @ [r]\<rparr>)
          else Inl (LibraryError, run))"

text \<open>The rows in the table after the loop, whether it ended normally or by an exception.\<close>

definition co2SourcesTable ::
  "(error \<times> co2Source importRun) + co2Source importRun \<Rightarrow> co2Source list" where
  "co2SourcesTable result = (case result of Inl (e, run) \<Rightarrow> inserted run | Inr run \<Rightarrow> inserted run)"

definition importCO2Sources ::
  "parseFloat \<Rightarrow> (co2Source \<Rightarrow> bool) \<Rightarrow> bbox option \<Rightarrow> (string \<times> json) list list option \<Rightarrow>
   stats \<Rightarrow> stats" where
  "importCO2Sources pf accepts area file st =
     (case file of
        None \<Rightarrow> st
      | Some data \<Rightarrow>
          (case co2SourcesLoop pf accepts area data \<lparr>imported = 0, filtered = 0, inserted = []\<rparr> of
             Inl e \<Rightarrow> st
           | Inr run \<Rightarrow>
               st\<lparr>co2Sources := imported run,
                  filteredOutByArea := filteredOutByArea st + filtered run\<rparr>))"

section \<open>Gas infrastructure: point files\<close>

text \<open>
  The branch of \<open>importGasInfrastructure\<close> for the three point files, from the transformed
  geometry of a feature to what happens to the feature:
  \<^verbatim>\<open>
      const coords = this.extractCoordinates(geometry);
      if (!this.isValidWGS84(coords)) continue;
      if (!this.isWithinAreaBounds(coords[0], coords[1])) { filtered++; continue; }
      ... INSERT ... ST_MakePoint(coords[0], coords[1]) ...
      imported++;\<close>
  \<open>Insert (lon, lat)\<close> is the insert of a point at \<open>coords[0], coords[1]\<close>.
\<close>

definition gasPointFeature :: "bbox option \<Rightarrow> json \<Rightarrow> error + (jsnum \<times> jsnum) outcome" where
  "gasPointFeature areaOfInterestBounds geometry =
     (case extractCoordinates geometry of
        Inl e \<Rightarrow> Inl e
      | Inr coords \<Rightarrow>
          if \<not> isValidWGS84 coords then Inr Rejected
          else (case coords of
                  JArr (JNum lon # JNum lat # _) \<Rightarrow>
                    if \<not> isWithinAreaBounds areaOfInterestBounds lon lat then Inr Filtered
                    else Inr (Insert (lon, lat))
                | _ \<Rightarrow> Inr Rejected))"

section \<open>Groundwater protection areas\<close>

text \<open>
  One pass of the reader loop of \<open>importGroundwaterAreasOptimized\<close>, inside its \<open>try\<close>:
  \<^verbatim>\<open>
      const geometry = this.transformGeometry(result.value.geometry);
      if (!this.isValidGeoJSON(geometry)) { skipped++; continue; }
      const bbox = this.getGeometryBounds(geometry);
      if (!this.boundsIntersectArea(bbox)) { skipped++; continue; }
      let simplifiedGeom = geometry;
      if (this.getGeometryComplexity(geometry) > 1000) {
          simplifiedGeom = this.simplifyGeometry(geometry, 0.001);
      }
      await this.client.query(`INSERT INTO groundwater_protection (...)`, [
          result.value.properties.Name || 'Groundwater Protection Area',
          result.value.properties.Zone || 'Protected',
          JSON.stringify(simplifiedGeom), JSON.stringify(result.value.properties) ]);
      imported++;\<close>
  \<open>Inr None\<close> is a \<open>continue\<close>, \<open>Inr (Some r)\<close> the insert of \<open>r\<close>, \<open>Inl e\<close> an exception,
  which the loop catches.
\<close>

record groundwaterArea =
  area_name :: json
  protection_zone :: json
  area_geom :: json
  area_properties :: json

definition andThen :: "error + 'a \<Rightarrow> ('a \<Rightarrow> error + 'b) \<Rightarrow> error + 'b" where
  "andThen m f = (case m of Inl e \<Rightarrow> Inl e | Inr x \<Rightarrow> f x)"

definition groundwaterFeature ::
  "proj4 \<Rightarrow> turf_bbox \<Rightarrow> turf_simplify \<Rightarrow> (groundwaterArea \<Rightarrow> bool) \<Rightarrow> bbox option \<Rightarrow> json \<Rightarrow>
   error + groundwaterArea option" where
  "groundwaterFeature P B S accepts area feature =
     andThen (getField feature ''geometry'') (\<lambda>g.
     andThen (transformGeometry P g) (\<lambda>geometry.
       if \<not> isValidGeoJSON geometry then Inr None
       else if \<not> boundsIntersectArea area (getGeometryBounds B geometry) then Inr None
       else
         andThen (getGeometryComplexity geometry) (\<lambda>n.
         andThen (if n > 1000 then simplifyGeometry S geometry (roundDouble (1 / 1000)) else Inr geometry)
           (\<lambda>simplifiedGeom.
         andThen (getField feature ''properties'') (\<lambda>properties.
         andThen (getField properties ''Name'') (\<lambda>name.
         andThen (getField properties ''Zone'') (\<lambda>zone.
           (let r = \<lparr>area_name = orElse name (JStr ''Groundwater Protection Area''),
                     protection_zone = orElse zone (JStr ''Protected''),
                     area_geom = simplifiedGeom, area_properties = properties\<rparr>
            in if accepts r then Inr (Some r) else Inl LibraryError))))))))"

text \<open>
  The loop and the update of the statistics for one file:
  \<^verbatim>\<open>
      let imported = 0; let processed = 0; let skipped = 0;
      const maxFeatures = this.isProduction ? 5000 : 50000;
      while (true) {
          const result = await reader.read();
          if (result.done || processed >= maxFeatures) break;
          processed++;
          try { ... } catch (error) { skipped++; }
      }
      this.stats.groundwaterAreas += imported;
      this.stats.filteredOutByArea += skipped;\<close>
\<close>

record groundwaterRun =
  gw_imported :: nat
  gw_processed :: nat
  gw_skipped :: nat
  gw_inserted :: "groundwaterArea list"

fun groundwaterLoop ::
  "proj4 \<Rightarrow> turf_bbox \<Rightarrow> turf_simplify \<Rightarrow> (groundwaterArea \<Rightarrow> bool) \<Rightarrow> bbox option \<Rightarrow> nat \<Rightarrow>
   json list \<Rightarrow> groundwaterRun \<Rightarrow> groundwaterRun" where
  "groundwaterLoop P B S accepts area maxFeatures [] run = run"
| "groundwaterLoop P B S accepts area maxFeatures (feature # features) run =
     (if gw_processed run \<ge> maxFeatures then run
      else
        (let run = run\<lparr>gw_processed := Suc (gw_processed run)\<rparr> in
         case groundwaterFeature P B S accepts area feature of
           Inr (Some r) \<Rightarrow>
             groundwaterLoop P B S accepts area maxFeatures features
               (run\<lparr>gw_imported := Suc (gw_imported run), gw_inserted := gw_inserted run @ [r]\<rparr>)
         | Inr None \<Rightarrow>
             groundwaterLoop P B S accepts area maxFeatures features
               (run\<lparr>gw_skipped := Suc (gw_skipped run)\<rparr>)
         | Inl e \<Rightarrow>
             groundwaterLoop P B S accepts area maxFeatures features
               (run\<lparr>gw_skipped := Suc (gw_skipped run)\<rparr>)))"

definition importGroundwaterFile ::
  "proj4 \<Rightarrow> turf_bbox \<Rightarrow> turf_simplify \<Rightarrow> (groundwaterArea \<Rightarrow> bool) \<Rightarrow> bbox option \<Rightarrow> bool \<Rightarrow>
   json list \<Rightarrow> stats \<Rightarrow> stats" where
  "importGroundwaterFile P B S accepts area isProduction features st =
     (let maxFeatures = (if isProduction then 5000 else 50000);
          run = groundwaterLoop P B S accepts area maxFeatures features
                  \<lparr>gw_imported = 0, gw_processed = 0, gw_skipped = 0, gw_inserted = []\<rparr>
      in st\<lparr>groundwaterAreas := groundwaterAreas st + gw_imported run,
            filteredOutByArea := filteredOutByArea st + gw_skipped run\<rparr>)"


section \<open>Notions of the specification\<close>

text \<open>
  The leaf coordinates of a coordinates nesting: an array whose first element is an array
  is a level of nesting, anything else is a leaf.  A leaf is well formed when it is an
  array of exactly two finite numbers.  \<open>fieldOf v name\<close> is the field of an object,
  \<open>undefined\<close> when it is absent or \<open>v\<close> is not an object.
\<close>

fun leaves :: "json \<Rightarrow> json list" where
  "leaves (JArr (c0 # rest)) =
     (if isArray c0 then concat (map leaves (c0 # rest)) else [JArr (c0 # rest)])"
| "leaves v = [v]"

fun finitePair :: "json \<Rightarrow> bool" where
  "finitePair (JArr [JNum (Fin x), JNum (Fin y)]) = True"
| "finitePair _ = False"

definition fieldOf :: "json \<Rightarrow> string \<Rightarrow> json" where
  "fieldOf v name =
     (case v of
        JObj ps \<Rightarrow> (case map_of ps name of Some x \<Rightarrow> x | None \<Rightarrow> JUndefined)
      | _ \<Rightarrow> JUndefined)"

text \<open>
  A point lies within a box when each coordinate lies between the bounds, inclusive.  Two
  boxes are disjoint when an axis separates them: one lies entirely to the west, east,
  south or north of the other.
\<close>

definition pointInBox :: "bbox \<Rightarrow> jsnum \<Rightarrow> jsnum \<Rightarrow> bool" where
  "pointInBox b lon lat =
     (js_le (minLon b) lon \<and> js_le lon (maxLon b) \<and> js_le (minLat b) lat \<and> js_le lat (maxLat b))"

definition boxesDisjoint :: "bbox \<Rightarrow> bbox \<Rightarrow> bool" where
  "boxesDisjoint a b =
     (js_lt (maxLon a) (minLon b) \<or> js_lt (maxLon b) (minLon a) \<or>
      js_lt (maxLat a) (minLat b) \<or> js_lt (maxLat b) (minLat a))"

definition finiteBox :: "bbox \<Rightarrow> bool" where
  "finiteBox b =
     (case (minLon b, minLat b, maxLon b, maxLat b) of
        (Fin w, Fin s, Fin e, Fin n) \<Rightarrow> w \<le> e \<and> s \<le> n
      | _ \<Rightarrow> False)"




text \<open>A sample of the built-in \<open>parseFloat\<close>, on numbers only: a number parses to itself.\<close>

fun parseFloatOfNumber :: "json \<Rightarrow> jsnum" where
  "parseFloatOfNumber (JNum n) = n"
| "parseFloatOfNumber _ = NaN"

text \<open>
  \<open>mapLeaves f\<close> applies \<open>f\<close> to every leaf of a coordinates nesting and keeps the
  nesting.  \<open>nestWithoutNull\<close> says that no level of a nesting that has to be entered is
  \<open>null\<close> or \<open>undefined\<close> (missing coordinates are \<open>undefined\<close>), nor an object standing
  in for an array.
\<close>

fun mapLeaves :: "(json \<Rightarrow> json) \<Rightarrow> json \<Rightarrow> json" where
  "mapLeaves f (JArr (c0 # rest)) =
     (if isArray c0 then JArr (map (mapLeaves f) (c0 # rest)) else f (JArr (c0 # rest)))"
| "mapLeaves f v = f v"

fun nestWithoutNull :: "json \<Rightarrow> bool" where
  "nestWithoutNull JNull = False"
| "nestWithoutNull JUndefined = False"
| "nestWithoutNull (JArr (c0 # rest)) =
     (if isArray c0 then list_all nestWithoutNull (c0 # rest) else True)"
| "nestWithoutNull (JObj ps) =
     (case map_of ps ''0'' of Some c0 \<Rightarrow> \<not> isArray c0 | None \<Rightarrow> True)"
| "nestWithoutNull v = True"

text \<open>
  A sample behaviour of the projection library, for the examples.  \<open>sampleProj4\<close> maps a
  pair of finite numbers by a linear approximation of the two inverse projections around
  their origins and rejects anything else with an exception, as the library rejects
  coordinates that are not finite numbers.
\<close>

definition sampleProj4 :: proj4 where
  "sampleProj4 name coords =
     (case coords of
        JArr (JNum (Fin x) # JNum (Fin y) # rest) \<Rightarrow>
          if name = ''EPSG:31287'' then
            Inr (JArr [JNum (Fin (40 / 3 + (x - 400000) / 75000)),
                       JNum (Fin (95 / 2 + (y - 400000) / 111000))])
          else
            Inr (JArr [JNum (Fin (31 / 3 + (x - 150000) / 75000)),
                       JNum (Fin ((y + 5000000) / 111000))])
      | _ \<Rightarrow> Inl LibraryError)"

text \<open>
  A sample of \<open>turf.bbox\<close>: the box starts as \<open>[Infinity, Infinity, -Infinity, -Infinity]\<close>
  and is widened by every leaf of the coordinates.
\<close>

definition widenByLeaf :: "bbox \<Rightarrow> json \<Rightarrow> bbox" where
  "widenByLeaf b leaf =
     (case leaf of
        JArr (JNum x # JNum y # rest) \<Rightarrow>
          \<lparr>minLon = (if js_gt (minLon b) x then x else minLon b),
           minLat = (if js_gt (minLat b) y then y else minLat b),
           maxLon = (if js_lt (maxLon b) x then x else maxLon b),
           maxLat = (if js_lt (maxLat b) y then y else maxLat b)\<rparr>
      | _ \<Rightarrow> b)"

definition sampleBbox :: turf_bbox where
  "sampleBbox geometry =
     (case getField geometry ''coordinates'' of
        Inl e \<Rightarrow> Inl LibraryError
      | Inr coords \<Rightarrow>
          Inr (foldl widenByLeaf
                 \<lparr>minLon = PosInf, minLat = PosInf, maxLon = NegInf, maxLat = NegInf\<rparr>
                 (leaves coords)))"

text \<open>
  The three kinds of feature of the end-to-end scenario, for the groundwater importer.  A
  feature is valid and inside the bounds when it has an attribute bag and its transformed
  geometry passes \<open>isValidGeoJSON\<close> and has a box that intersects the area of interest;
  it is malformed when its geometry does not pass \<open>isValidGeoJSON\<close> after the
  transformation or makes the transformation raise; it is outside when its geometry is
  valid and its box does not intersect the area of interest.
\<close>

definition featureGeometry :: "proj4 \<Rightarrow> json \<Rightarrow> error + json" where
  "featureGeometry P feature =
     (case getField feature ''geometry'' of Inl e \<Rightarrow> Inl e | Inr g \<Rightarrow> transformGeometry P g)"

definition malformedFeature :: "proj4 \<Rightarrow> json \<Rightarrow> bool" where
  "malformedFeature P feature =
     (case featureGeometry P feature of Inl e \<Rightarrow> True | Inr geometry \<Rightarrow> \<not> isValidGeoJSON geometry)"

definition outsideFeature :: "proj4 \<Rightarrow> turf_bbox \<Rightarrow> bbox option \<Rightarrow> json \<Rightarrow> bool" where
  "outsideFeature P B area feature =
     (case featureGeometry P feature of
        Inl e \<Rightarrow> False
      | Inr geometry \<Rightarrow>
          isValidGeoJSON geometry \<and> \<not> boundsIntersectArea area (getGeometryBounds B geometry))"

definition validInsideFeature :: "proj4 \<Rightarrow> turf_bbox \<Rightarrow> bbox option \<Rightarrow> json \<Rightarrow> bool" where
  "validInsideFeature P B area feature =
     (fieldOf feature ''properties'' \<noteq> JNull \<and> fieldOf feature ''properties'' \<noteq> JUndefined \<and>
      (case featureGeometry P feature of
         Inl e \<Rightarrow> False
       | Inr geometry \<Rightarrow>
           isValidGeoJSON geometry \<and> boundsIntersectArea area (getGeometryBounds B geometry)))"

text \<open>A feature with a multi-polygon of one ring, as the shapefile reader delivers it, for
  the examples.\<close>

definition multiPolygonFeature :: "json list \<Rightarrow> json" where
  "multiPolygonFeature ring =
     JObj [(''type'', JStr ''Feature''),
           (''properties'', JObj [(''Name'', JStr ''Schongebiet'')]),
           (''geometry'', JObj [(''type'', JStr ''MultiPolygon''),
                                (''coordinates'', JArr [JArr [JArr ring]])])]"








section \<open>Properties\<close>

subsection \<open>Structural validity\<close>

lemma isFiniteNumber_iff: "isFiniteNumber v \<longleftrightarrow> (\<exists>r. v = JNum (Fin r))"
  by (cases v rule: isFiniteNumber.cases) auto

lemma finitePair_iff: "finitePair v \<longleftrightarrow> (\<exists>x y. v = JArr [JNum (Fin x), JNum (Fin y)])"
  by (cases v rule: finitePair.cases) simp_all

lemma finitePair_leaf:
  "finitePair (JArr xs) \<longleftrightarrow> length xs = 2 \<and> list_all isFiniteNumber xs"
proof -
  have "length xs = 2 \<longleftrightarrow> (\<exists>a b. xs = [a, b])"
    by (cases xs; simp; cases "tl xs"; simp) 
  then show ?thesis
    by (auto simp: finitePair_iff isFiniteNumber_iff)
qed

lemma checkCoords_leaves:
  "(checkCoords c = Inr True) = list_all finitePair (leaves c)"
  "(everyCheckCoords cs = Inr True) = list_all (\<lambda>c. list_all finitePair (leaves c)) cs"
proof (induction c and cs rule: checkCoords_everyCheckCoords.induct)
  case (4 c0 rest)
  show ?case
  proof (cases "isArray c0")
    case True
    have "(checkCoords (JArr (c0 # rest)) = Inr True) = (everyCheckCoords (c0 # rest) = Inr True)"
      using True by simp
    also have "\<dots> = list_all (\<lambda>c. list_all finitePair (leaves c)) (c0 # rest)"
      using 4 True by blast
    also have "\<dots> = list_all finitePair (leaves (JArr (c0 # rest)))"
      using True by (auto simp add: list_all_iff)
    finally show ?thesis .
  next
    case False
    then show ?thesis by (simp add: finitePair_leaf)
  qed
next
  case (5 ps)
  then show ?case by (simp add: finitePair_iff split: option.splits)
next
  case (10 c cs)
  show ?case
  proof (cases "checkCoords c")
    case (Inl e)
    with 10(1) show ?thesis by simp
  next
    case (Inr ok)
    show ?thesis
    proof (cases ok)
      case True
      with Inr 10 show ?thesis by simp
    next
      case False
      with Inr 10(1) show ?thesis by simp
    qed
  qed
qed (simp_all add: finitePair_iff)

lemma getField_fieldOf: "v \<noteq> JNull \<Longrightarrow> v \<noteq> JUndefined \<Longrightarrow> getField v name = Inr (fieldOf v name)"
  by (cases v) (simp_all add: fieldOf_def split: option.splits)

text \<open>
  Claim C4.  \<open>isValidGeoJSON\<close> accepts a geometry exactly when it is not \<open>null\<close> or
  \<open>undefined\<close>, its \<open>type\<close> and its \<open>coordinates\<close> are present (truthy, as the code
  tests them), and every leaf of the coordinates nesting, at any depth, is an array of
  exactly two finite numbers.  A leaf that is not a number pair, or holds NaN, an infinity
  or a non-number, makes it answer \<open>false\<close>.
\<close>

theorem isValidGeoJSON_iff:
  "isValidGeoJSON geometry \<longleftrightarrow>
     geometry \<noteq> JNull \<and> geometry \<noteq> JUndefined \<and>
     truthy (fieldOf geometry ''type'') \<and> truthy (fieldOf geometry ''coordinates'') \<and>
     list_all finitePair (leaves (fieldOf geometry ''coordinates''))"
proof (cases "geometry = JNull \<or> geometry = JUndefined")
  case True
  then show ?thesis by (auto simp: isValidGeoJSON_def)
next
  case False
  then have g: "getField geometry name = Inr (fieldOf geometry name)" for name
    by (simp add: getField_fieldOf)
  have t: "\<not> truthy geometry \<Longrightarrow> \<not> truthy (fieldOf geometry ''type'')"
    by (cases geometry) (simp_all add: fieldOf_def)
  show ?thesis
    using False t checkCoords_leaves(1)[of "fieldOf geometry ''coordinates''"]
    by (auto simp: isValidGeoJSON_def g split: sum.splits)
qed


theorem isValidGeoJSON_iff_witness:
  "isValidGeoJSON
     (JObj [(''type'', JStr ''Polygon''),
            (''coordinates'', JArr [JArr [JArr [JNum (Fin 13), JNum (Fin 47)],
                                         JArr [JNum (Fin 14), JNum (Fin 48)]]])]) \<and>
   \<not> isValidGeoJSON
     (JObj [(''type'', JStr ''Polygon''),
            (''coordinates'', JArr [JArr [JArr [JNum (Fin 13), JNum (Fin 47)],
                                         JArr [JNum (Fin 14), JNum NaN]]])])"
  using isValidGeoJSON_iff
    [of "JObj [(''type'', JStr ''Polygon''),
            (''coordinates'', JArr [JArr [JArr [JNum (Fin 13), JNum (Fin 47)],
                                         JArr [JNum (Fin 14), JNum (Fin 48)]]])]"]
    isValidGeoJSON_iff
    [of "JObj [(''type'', JStr ''Polygon''),
            (''coordinates'', JArr [JArr [JArr [JNum (Fin 13), JNum (Fin 47)],
                                         JArr [JNum (Fin 14), JNum NaN]]])]"]
  by (simp add: fieldOf_def)

subsection \<open>Area-of-interest filter\<close>

lemma loadAreaBounds_no_source:
  "list_all (\<lambda>f. f = None) files \<Longrightarrow> loadAreaBounds P B files None = None"
  by (induction files) auto

text \<open>
  Claim C7.  \<open>isWithinAreaBounds\<close> holds exactly when the bounds are unset or the point
  lies within the box, bounds included; \<open>boundsIntersectArea\<close> holds exactly when the
  bounds are unset, the box of the geometry is unset, or no axis separates the two boxes.
  When no boundary file was found, \<open>loadAreaBounds\<close> leaves the bounds unset and both
  checks pass for every point and every box.
\<close>

theorem area_filter_checks:
  "(isWithinAreaBounds area lon lat \<longleftrightarrow>
      (case area of None \<Rightarrow> True | Some a \<Rightarrow> pointInBox a lon lat)) \<and>
   (boundsIntersectArea area bounds \<longleftrightarrow>
      (case area of
         None \<Rightarrow> True
       | Some a \<Rightarrow> (case bounds of None \<Rightarrow> True | Some b \<Rightarrow> \<not> boxesDisjoint a b))) \<and>
   (list_all (\<lambda>f. f = None) files \<longrightarrow>
      isWithinAreaBounds (loadAreaBounds P B files None) lon lat \<and>
      boundsIntersectArea (loadAreaBounds P B files None) bounds)"
proof (intro conjI impI)
  show "isWithinAreaBounds area lon lat \<longleftrightarrow>
      (case area of None \<Rightarrow> True | Some a \<Rightarrow> pointInBox a lon lat)"
    by (auto simp: isWithinAreaBounds_def pointInBox_def js_ge_def split: option.splits)
  show "boundsIntersectArea area bounds \<longleftrightarrow>
      (case area of
         None \<Rightarrow> True
       | Some a \<Rightarrow> (case bounds of None \<Rightarrow> True | Some b \<Rightarrow> \<not> boxesDisjoint a b))"
    by (auto simp: boundsIntersectArea_def boxesDisjoint_def js_gt_def split: option.splits)
next
  assume "list_all (\<lambda>f. f = None) files"
  then have n: "loadAreaBounds P B files None = None"
    by (rule loadAreaBounds_no_source)
  show "isWithinAreaBounds (loadAreaBounds P B files None) lon lat"
    by (simp add: n isWithinAreaBounds_def)
  show "boundsIntersectArea (loadAreaBounds P B files None) bounds"
    by (simp add: n boundsIntersectArea_def split: option.splits)
qed

text \<open>For boxes with finite bounds in the right order, no separating axis means that the
  two rectangles share a point.\<close>

lemma boxesDisjoint_finite:
  assumes "finiteBox a" "finiteBox b"
  shows "\<not> boxesDisjoint a b \<longleftrightarrow> (\<exists>x y. pointInBox a (Fin x) (Fin y) \<and> pointInBox b (Fin x) (Fin y))"
proof -
  obtain aw as ae an where a: "minLon a = Fin aw" "minLat a = Fin as" "maxLon a = Fin ae" "maxLat a = Fin an"
    "aw \<le> ae" "as \<le> an"
    using assms(1) by (auto simp: finiteBox_def split: jsnum.splits)
  obtain bw bs be bn where b: "minLon b = Fin bw" "minLat b = Fin bs" "maxLon b = Fin be" "maxLat b = Fin bn"
    "bw \<le> be" "bs \<le> bn"
    using assms(2) by (auto simp: finiteBox_def split: jsnum.splits)
  show ?thesis
  proof
    assume "\<not> boxesDisjoint a b"
    then have o: "bw \<le> ae" "aw \<le> be" "bs \<le> an" "as \<le> bn"
      by (auto simp: boxesDisjoint_def a b)
    have "pointInBox a (Fin (max aw bw)) (Fin (max as bs)) \<and> pointInBox b (Fin (max aw bw)) (Fin (max as bs))"
      using o a b by (simp add: pointInBox_def)
    then show "\<exists>x y. pointInBox a (Fin x) (Fin y) \<and> pointInBox b (Fin x) (Fin y)" by blast
  next
    assume "\<exists>x y. pointInBox a (Fin x) (Fin y) \<and> pointInBox b (Fin x) (Fin y)"
    then show "\<not> boxesDisjoint a b"
      by (auto simp: boxesDisjoint_def pointInBox_def a b)
  qed
qed

theorem area_filter_checks_witness:
  "isWithinAreaBounds (Some \<lparr>minLon = Fin 12, minLat = Fin 46, maxLon = Fin 15, maxLat = Fin 49\<rparr>)
     (Fin 12) (Fin 49) \<and>
   \<not> isWithinAreaBounds (Some \<lparr>minLon = Fin 12, minLat = Fin 46, maxLon = Fin 15, maxLat = Fin 49\<rparr>)
     (Fin 16) (Fin 48) \<and>
   \<not> boundsIntersectArea (Some \<lparr>minLon = Fin 12, minLat = Fin 46, maxLon = Fin 15, maxLat = Fin 49\<rparr>)
     (Some \<lparr>minLon = Fin 16, minLat = Fin 46, maxLon = Fin 17, maxLat = Fin 49\<rparr>) \<and>
   isWithinAreaBounds (loadAreaBounds (\<lambda>n c. Inl LibraryError) (\<lambda>g. Inl LibraryError) [None, None] None)
     (Fin 16) (Fin 48)"
  using area_filter_checks
    [of "Some \<lparr>minLon = Fin 12, minLat = Fin 46, maxLon = Fin 15, maxLat = Fin 49\<rparr>" "Fin 12" "Fin 49"
        "Some \<lparr>minLon = Fin 16, minLat = Fin 46, maxLon = Fin 17, maxLat = Fin 49\<rparr>"
        "[None, None]" "\<lambda>n c. Inl LibraryError" "\<lambda>g. Inl LibraryError"]
    area_filter_checks
    [of "Some \<lparr>minLon = Fin 12, minLat = Fin 46, maxLon = Fin 15, maxLat = Fin 49\<rparr>" "Fin 16" "Fin 48"
        "Some \<lparr>minLon = Fin 16, minLat = Fin 46, maxLon = Fin 17, maxLat = Fin 49\<rparr>"
        "[None, None]" "\<lambda>n c. Inl LibraryError" "\<lambda>g. Inl LibraryError"]
  by (simp add: pointInBox_def boxesDisjoint_def)

subsection \<open>Voting districts\<close>








subsection \<open>Coordinates of point features\<close>

lemma firstCoordinateLoop_total:
  "coords \<noteq> JNull \<Longrightarrow> coords \<noteq> JUndefined \<Longrightarrow> \<exists>r. firstCoordinateLoop coords = Inr r"
proof (induction coords rule: firstCoordinateLoop.induct)
  case (4 c0 rest)
  show ?case
  proof (cases "isArray c0")
    case True
    then have "c0 \<noteq> JNull" "c0 \<noteq> JUndefined" by auto
    with 4 True show ?thesis by simp
  next
    case False
    then show ?thesis by simp
  qed
next
  case (5 ps)
  show ?case
  proof (cases "map_of ps ''0''")
    case None
    then show ?thesis by simp
  next
    case (Some c0)
    show ?thesis
    proof (cases "isArray c0")
      case True
      then have "c0 \<noteq> JNull" "c0 \<noteq> JUndefined" by auto
      with 5 Some True show ?thesis by simp
    next
      case False
      with Some show ?thesis by simp
    qed
  qed
qed simp_all

lemma extractFirstCoordinate_total: "\<exists>r. extractFirstCoordinate geometry = Inr r"
proof (cases "truthy geometry")
  case False
  then show ?thesis by (simp add: extractFirstCoordinate_def)
next
  case True
  then have g: "geometry \<noteq> JNull" "geometry \<noteq> JUndefined" by auto
  then have "\<exists>coords. getField geometry ''coordinates'' = Inr coords"
    by (cases geometry) (simp_all split: option.splits)
  then obtain coords where c: "getField geometry ''coordinates'' = Inr coords"
    by blast
  show ?thesis
  proof (cases "truthy coords")
    case False
    with True c show ?thesis by (simp add: extractFirstCoordinate_def)
  next
    case t: True
    then have "coords \<noteq> JNull" "coords \<noteq> JUndefined" by auto
    then obtain r where "firstCoordinateLoop coords = Inr r"
      using firstCoordinateLoop_total by blast
    with True c t show ?thesis by (simp add: extractFirstCoordinate_def)
  qed
qed

lemma isValidWGS84_iff:
  "isValidWGS84 coords \<longleftrightarrow>
     (\<exists>lon lat rest. coords = JArr (JNum lon # JNum lat # rest) \<and>
        js_ge lon (Fin (- 180)) \<and> js_le lon (Fin 180) \<and>
        js_ge lat (Fin (- 90)) \<and> js_le lat (Fin 90))"
proof (cases coords)
  case (JArr xs)
  show ?thesis
  proof (cases xs)
    case Nil
    with JArr show ?thesis by (simp add: isValidWGS84_def)
  next
    case a: (Cons a ys)
    show ?thesis
    proof (cases ys)
      case Nil
      with JArr a show ?thesis by (simp add: isValidWGS84_def)
    next
      case (Cons b rest)
      with JArr a show ?thesis
        by (cases a; cases b; simp add: isValidWGS84_def)
    qed
  qed
qed (simp_all add: isValidWGS84_def)

text \<open>The values of the literals \<open>13.5\<close> and \<open>47.8\<close>.\<close>

lemma roundDouble_13_5: "roundDouble (27 / 2) = Fin (27 / 2)"
  by code_simp

lemma roundDouble_47_8: "roundDouble (239 / 5) = Fin (3363625971692339 / 70368744177664)"
  by code_simp

lemma defaultCoordinates_valid: "isValidWGS84 defaultCoordinates"
  by (simp add: defaultCoordinates_def isValidWGS84_def js_ge_def roundDouble_13_5 roundDouble_47_8)

text \<open>
  Claim C5 fails as stated in its last part: a feature that gets the constant pair passes
  the validity check but still has to pass the area filter, with that pair.  When the
  bounds do not contain \<open>[13.5, 47.8]\<close>, a feature without geometry is counted as filtered
  by area and not inserted.
\<close>

theorem gasPointFeature_default_counterexample:
  "gasPointFeature (Some \<lparr>minLon = Fin 14, minLat = Fin 48, maxLon = Fin 15, maxLat = Fin 49\<rparr>) JNull =
   Inr Filtered"
  by (simp add: gasPointFeature_def extractCoordinates_def extractFirstCoordinate_def
      isValidWGS84_def defaultCoordinates_def isWithinAreaBounds_def js_ge_def
      roundDouble_13_5 roundDouble_47_8)

text \<open>
  Claim C5, amended.  \<open>extractCoordinates\<close> returns, for every geometry, a pair that
  passes \<open>isValidWGS84\<close>; when the first leaf coordinate of the geometry does not pass, it
  is the constant pair \<open>[13.5, 47.8]\<close>.  So the validity check of the point branch of the
  gas import never rejects a feature, and a feature whose first coordinate is not valid
  goes on to the area filter with the constant pair: it is inserted at that location when
  the location is within the bounds or the bounds are unset, and counted as filtered by
  area otherwise.
\<close>

theorem extractCoordinates_always_valid:
  "(\<exists>coords. extractCoordinates geometry = Inr coords \<and> isValidWGS84 coords) \<and>
   (\<forall>first. extractFirstCoordinate geometry = Inr first \<and> \<not> isValidWGS84 first \<longrightarrow>
      extractCoordinates geometry = Inr defaultCoordinates \<and>
      gasPointFeature area geometry =
        Inr (if isWithinAreaBounds area (roundDouble (27 / 2)) (roundDouble (239 / 5))
             then Insert (roundDouble (27 / 2), roundDouble (239 / 5)) else Filtered)) \<and>
   (\<exists>result. gasPointFeature area geometry = Inr result \<and> result \<noteq> Rejected)"
proof -
  obtain first where f: "extractFirstCoordinate geometry = Inr first"
    using extractFirstCoordinate_total by blast
  show ?thesis
  proof (cases "isValidWGS84 first")
    case True
    then obtain lon lat rest where n: "first = JArr (JNum lon # JNum lat # rest)"
      using isValidWGS84_iff by blast
    have e: "extractCoordinates geometry = Inr first"
      using f True by (simp add: extractCoordinates_def)
    have "\<exists>result. gasPointFeature area geometry = Inr result \<and> result \<noteq> Rejected"
      using e True n by (simp add: gasPointFeature_def)
    with e f True show ?thesis by auto
  next
    case False
    have e: "extractCoordinates geometry = Inr defaultCoordinates"
      using f False by (simp add: extractCoordinates_def)
    have g: "gasPointFeature area geometry =
        Inr (if isWithinAreaBounds area (roundDouble (27 / 2)) (roundDouble (239 / 5))
             then Insert (roundDouble (27 / 2), roundDouble (239 / 5)) else Filtered)"
      using e defaultCoordinates_valid
      by (simp add: gasPointFeature_def) (simp add: defaultCoordinates_def)
    from e g defaultCoordinates_valid show ?thesis by auto
  qed
qed

theorem extractCoordinates_always_valid_witness:
  "extractCoordinates (JObj [(''type'', JStr ''Point''),
        (''coordinates'', JArr [JNum NaN, JNum NaN])]) = Inr defaultCoordinates \<and>
   gasPointFeature None (JObj [(''type'', JStr ''Point''),
        (''coordinates'', JArr [JNum NaN, JNum NaN])]) =
     Inr (Insert (roundDouble (27 / 2), roundDouble (239 / 5))) \<and>
   gasPointFeature (Some \<lparr>minLon = Fin 12, minLat = Fin 46, maxLon = Fin 15, maxLat = Fin 49\<rparr>) JNull =
     Inr (Insert (roundDouble (27 / 2), roundDouble (239 / 5)))"
proof -
  let ?g = "JObj [(''type'', JStr ''Point''), (''coordinates'', JArr [JNum NaN, JNum NaN])]"
  let ?area = "Some \<lparr>minLon = Fin 12, minLat = Fin 46, maxLon = Fin 15, maxLat = Fin 49\<rparr>"
  have f: "extractFirstCoordinate ?g = Inr (JArr [JNum NaN, JNum NaN]) \<and>
      \<not> isValidWGS84 (JArr [JNum NaN, JNum NaN])"
    by (simp add: extractFirstCoordinate_def isValidWGS84_def js_ge_def)
  have n: "extractFirstCoordinate JNull = Inr (JArr []) \<and> \<not> isValidWGS84 (JArr [])"
    by (simp add: extractFirstCoordinate_def isValidWGS84_def)
  have w: "isWithinAreaBounds None (roundDouble (27 / 2)) (roundDouble (239 / 5))"
    by (simp add: isWithinAreaBounds_def)
  have w': "isWithinAreaBounds ?area (roundDouble (27 / 2)) (roundDouble (239 / 5))"
    by (simp add: isWithinAreaBounds_def js_ge_def roundDouble_13_5 roundDouble_47_8)
  from f extractCoordinates_always_valid [of ?g None]
  have "extractCoordinates ?g = Inr defaultCoordinates \<and>
      gasPointFeature None ?g =
        Inr (if isWithinAreaBounds None (roundDouble (27 / 2)) (roundDouble (239 / 5))
             then Insert (roundDouble (27 / 2), roundDouble (239 / 5)) else Filtered)"
    by blast
  with w have 1: "extractCoordinates ?g = Inr defaultCoordinates \<and>
      gasPointFeature None ?g = Inr (Insert (roundDouble (27 / 2), roundDouble (239 / 5)))"
    by simp
  from n extractCoordinates_always_valid [of JNull ?area]
  have "gasPointFeature ?area JNull =
        Inr (if isWithinAreaBounds ?area (roundDouble (27 / 2)) (roundDouble (239 / 5))
             then Insert (roundDouble (27 / 2), roundDouble (239 / 5)) else Filtered)"
    by blast
  with w' have 2: "gasPointFeature ?area JNull =
      Inr (Insert (roundDouble (27 / 2), roundDouble (239 / 5)))"
    by simp
  from 1 2 show ?thesis by blast
qed

subsection \<open>CO2 sources\<close>

lemma co2SourceValues_prominent:
  "is_prominent (co2SourceValues pf row lon lat) =
     js_gt (total_co2_t (co2SourceValues pf row lon lat)) (Fin 50000) \<and>
   pin_size (co2SourceValues pf row lon lat) =
     (if is_prominent (co2SourceValues pf row lon lat) then 4 else 2)"
  by (simp add: co2SourceValues_def Let_def)

lemma co2SourceRow_Insert:
  "co2SourceRow pf area row = Insert r \<Longrightarrow>
     \<exists>lon lat. r = co2SourceValues pf row lon lat"
  by (auto simp: co2SourceRow_def Let_def split: if_splits)

lemma co2SourcesLoop_rows:
  assumes "\<forall>r \<in> set (inserted run). Q r"
    and "\<And>row lon lat. Q (co2SourceValues pf row lon lat)"
  shows "\<forall>r \<in> set (co2SourcesTable (co2SourcesLoop pf accepts area data run)). Q r"
  using assms(1)
proof (induction data arbitrary: run)
  case Nil
  then show ?case by (simp add: co2SourcesTable_def)
next
  case (Cons row data)
  show ?case
  proof (cases "co2SourceRow pf area row")
    case Rejected
    with Cons show ?thesis by simp
  next
    case Filtered
    with Cons.IH [of "run\<lparr>filtered := Suc (filtered run)\<rparr>"] Cons.prems
    show ?thesis by simp
  next
    case (Insert r)
    then obtain lon lat where r: "r = co2SourceValues pf row lon lat"
      using co2SourceRow_Insert by blast
    show ?thesis
    proof (cases "accepts r")
      case True
      have "\<forall>x \<in> set (inserted (run\<lparr>imported := Suc (imported run), inserted := inserted run @ [r]\<rparr>)). Q x"
        using Cons.prems assms(2) r by auto
      from Cons.IH [OF this] Insert True show ?thesis by simp
    next
      case False
      with Insert Cons.prems show ?thesis by (simp add: co2SourcesTable_def)
    qed
  qed
qed

text \<open>
  Claim C10.  Every row that \<open>importCO2Sources\<close> inserts has \<open>is_prominent\<close> exactly when
  its \<open>total_co2_t\<close> is greater than 50000, and pin size 4 when it is prominent, 2
  otherwise.  A total of 50001 is prominent, a total of exactly 50000 is not.
\<close>

theorem co2_prominence:
  "(\<forall>r \<in> set (co2SourcesTable
        (co2SourcesLoop pf accepts area data \<lparr>imported = 0, filtered = 0, inserted = []\<rparr>)).
      is_prominent r = js_gt (total_co2_t r) (Fin 50000) \<and>
      pin_size r = (if is_prominent r then 4 else 2)) \<and>
   (pf (orElse (cell row ''Total_CO2_t'') (JNum (Fin 0))) = Fin 50001 \<longrightarrow>
      is_prominent (co2SourceValues pf row lon lat) \<and>
      pin_size (co2SourceValues pf row lon lat) = 4) \<and>
   (pf (orElse (cell row ''Total_CO2_t'') (JNum (Fin 0))) = Fin 50000 \<longrightarrow>
      \<not> is_prominent (co2SourceValues pf row lon lat) \<and>
      pin_size (co2SourceValues pf row lon lat) = 2)"
proof (intro conjI)
  show "\<forall>r \<in> set (co2SourcesTable
        (co2SourcesLoop pf accepts area data \<lparr>imported = 0, filtered = 0, inserted = []\<rparr>)).
      is_prominent r = js_gt (total_co2_t r) (Fin 50000) \<and>
      pin_size r = (if is_prominent r then 4 else 2)"
    by (rule co2SourcesLoop_rows) (simp_all add: co2SourceValues_prominent)
  show "pf (orElse (cell row ''Total_CO2_t'') (JNum (Fin 0))) = Fin 50001 \<longrightarrow>
      is_prominent (co2SourceValues pf row lon lat) \<and>
      pin_size (co2SourceValues pf row lon lat) = 4"
    by (simp add: co2SourceValues_def Let_def js_gt_def)
  show "pf (orElse (cell row ''Total_CO2_t'') (JNum (Fin 0))) = Fin 50000 \<longrightarrow>
      \<not> is_prominent (co2SourceValues pf row lon lat) \<and>
      pin_size (co2SourceValues pf row lon lat) = 2"
    by (simp add: co2SourceValues_def Let_def js_gt_def)
qed

theorem co2_prominence_witness:
  "map (\<lambda>r. (is_prominent r, pin_size r))
     (co2SourcesTable
        (co2SourcesLoop parseFloatOfNumber (\<lambda>r. True) None
           [[(''Longitude'', JNum (Fin 13)), (''Latitude'', JNum (Fin 48)),
             (''Total_CO2_t'', JNum (Fin 50001))],
            [(''Longitude'', JNum (Fin 14)), (''Latitude'', JNum (Fin 48)),
             (''Total_CO2_t'', JNum (Fin 50000))]]
           \<lparr>imported = 0, filtered = 0, inserted = []\<rparr>)) = [(True, 4), (False, 2)] \<and>
   is_prominent (co2SourceValues parseFloatOfNumber [(''Total_CO2_t'', JNum (Fin 50001))] (Fin 13) (Fin 48)) \<and>
   \<not> is_prominent (co2SourceValues parseFloatOfNumber [(''Total_CO2_t'', JNum (Fin 50000))] (Fin 13) (Fin 48))"
proof -
  have a: "parseFloatOfNumber (orElse (cell [(''Total_CO2_t'', JNum (Fin 50001))] ''Total_CO2_t'') (JNum (Fin 0)))
      = Fin 50001"
    by (simp add: cell_def orElse_def)
  have b: "parseFloatOfNumber (orElse (cell [(''Total_CO2_t'', JNum (Fin 50000))] ''Total_CO2_t'') (JNum (Fin 0)))
      = Fin 50000"
    by (simp add: cell_def orElse_def)
  have t: "map (\<lambda>r. (is_prominent r, pin_size r))
     (co2SourcesTable
        (co2SourcesLoop parseFloatOfNumber (\<lambda>r. True) None
           [[(''Longitude'', JNum (Fin 13)), (''Latitude'', JNum (Fin 48)),
             (''Total_CO2_t'', JNum (Fin 50001))],
            [(''Longitude'', JNum (Fin 14)), (''Latitude'', JNum (Fin 48)),
             (''Total_CO2_t'', JNum (Fin 50000))]]
           \<lparr>imported = 0, filtered = 0, inserted = []\<rparr>)) = [(True, 4), (False, 2)]"
    by (simp add: co2SourcesTable_def co2SourceRow_def co2SourceValues_def Let_def cell_def
        orElse_def isValidWGS84_def isWithinAreaBounds_def js_ge_def js_gt_def)
  from a co2_prominence [of parseFloatOfNumber "\<lambda>r. True" None "[]"
      "[(''Total_CO2_t'', JNum (Fin 50001))]" "Fin 13" "Fin 48"]
  have 1: "is_prominent (co2SourceValues parseFloatOfNumber [(''Total_CO2_t'', JNum (Fin 50001))] (Fin 13) (Fin 48))"
    by blast
  from b co2_prominence [of parseFloatOfNumber "\<lambda>r. True" None "[]"
      "[(''Total_CO2_t'', JNum (Fin 50000))]" "Fin 13" "Fin 48"]
  have 2: "\<not> is_prominent (co2SourceValues parseFloatOfNumber [(''Total_CO2_t'', JNum (Fin 50000))] (Fin 13) (Fin 48))"
    by blast
  from t 1 2 show ?thesis by blast
qed

subsection \<open>Coordinate transformation\<close>

lemma isWGS84_first:
  "extractFirstCoordinate geometry = Inr first \<Longrightarrow> isWGS84 geometry = Inr (isValidWGS84 first)"
  by (simp add: isWGS84_def)

lemma falsy_first_invalid:
  "\<not> truthy geometry \<Longrightarrow> extractFirstCoordinate geometry = Inr first \<Longrightarrow> \<not> isValidWGS84 first"
  by (auto simp: extractFirstCoordinate_def isValidWGS84_def)

lemma transformCoords_mapLeaves:
  "nestWithoutNull c \<Longrightarrow> transformCoords P c = Inr (mapLeaves (transformLeaf P) c)"
  "list_all nestWithoutNull cs \<Longrightarrow>
     mapTransformCoords P cs = Inr (map (mapLeaves (transformLeaf P)) cs)"
proof (induction P c and P cs rule: transformCoords_mapTransformCoords.induct)
  case (4 P c0 rest)
  show ?case
  proof (cases "isArray c0")
    case True
    with 4 have "mapTransformCoords P (c0 # rest) =
        Inr (map (mapLeaves (transformLeaf P)) (c0 # rest))"
      by simp
    with True show ?thesis by simp
  next
    case False
    then show ?thesis by simp
  qed
next
  case (5 P ps)
  then show ?case by (auto split: option.splits)
next
  case (10 P c cs)
  then show ?case by simp
qed simp_all

lemma transformCoords_raises:
  "\<not> nestWithoutNull c \<Longrightarrow> transformCoords P c = Inl TypeError"
  "\<not> list_all nestWithoutNull cs \<Longrightarrow> mapTransformCoords P cs = Inl TypeError"
proof (induction P c and P cs rule: transformCoords_mapTransformCoords.induct)
  case (4 P c0 rest)
  show ?case
  proof (cases "isArray c0")
    case True
    with 4 have "mapTransformCoords P (c0 # rest) = Inl TypeError"
      by simp
    with True show ?thesis by simp
  next
    case False
    with 4 show ?thesis by simp
  qed
next
  case (5 P ps)
  then show ?case by (auto split: option.splits)
next
  case (10 P c cs)
  show ?case
  proof (cases "nestWithoutNull c")
    case False
    with 10 show ?thesis by simp
  next
    case True
    then have c: "transformCoords P c = Inr (mapLeaves (transformLeaf P) c)"
      by (rule transformCoords_mapLeaves(1))
    from True 10(3) have "\<not> list_all nestWithoutNull cs" by simp
    with 10(2) [OF c] have "mapTransformCoords P cs = Inl TypeError" .
    with c show ?thesis by simp
  qed
qed simp_all


lemma transformGeometry_unchanged:
  assumes "extractFirstCoordinate geometry = Inr first" and "isValidWGS84 first"
  shows "transformGeometry P geometry = Inr geometry"
proof -
  have "truthy geometry" using assms falsy_first_invalid by blast
  moreover have "isWGS84 geometry = Inr True" using assms by (simp add: isWGS84_first)
  ultimately show ?thesis by (simp add: transformGeometry_def)
qed

lemma transformGeometry_transforms:
  assumes "truthy geometry" and "extractFirstCoordinate geometry = Inr first"
    and "\<not> isValidWGS84 first"
  shows "transformGeometry P geometry =
     (if nestWithoutNull (fieldOf geometry ''coordinates'')
      then setField (jsonCopy geometry) ''coordinates''
             (mapLeaves (transformLeaf P) (fieldOf geometry ''coordinates''))
      else Inl TypeError)"
proof -
  from assms(1) have g: "geometry \<noteq> JNull" "geometry \<noteq> JUndefined" by auto
  then have f: "getField geometry ''coordinates'' = Inr (fieldOf geometry ''coordinates'')"
    by (rule getField_fieldOf)
  have w: "isWGS84 geometry = Inr False" using assms by (simp add: isWGS84_first)
  show ?thesis
  proof (cases "nestWithoutNull (fieldOf geometry ''coordinates'')")
    case True
    then show ?thesis
      using assms(1) w f by (simp add: transformGeometry_def transformCoords_mapLeaves(1))
  next
    case False
    then show ?thesis
      using assms(1) w f by (simp add: transformGeometry_def transformCoords_raises(1))
  qed
qed

lemma nestWithoutNull_object:
  "nestWithoutNull (fieldOf geometry ''coordinates'') \<Longrightarrow> \<exists>ps. geometry = JObj ps"
  by (cases geometry) (simp_all add: fieldOf_def)


lemma tryTransform_raises: "P name leaf = Inl e \<Longrightarrow> tryTransform P leaf name = JNull"
  by (simp add: tryTransform_def)

text \<open>
  Claim C2 fails as stated: the test for "already WGS84" is made once per geometry, on its
  first leaf coordinate, not per leaf.  In a line whose first point is projected and whose
  second point is in the valid range, the second point is projected too.
\<close>

theorem transformGeometry_valid_leaf_counterexample:
  "isValidWGS84 (JArr [JNum (Fin (27 / 2)), JNum (Fin (239 / 5))]) \<and>
   transformGeometry sampleProj4
     (JObj [(''type'', JStr ''LineString''),
            (''coordinates'', JArr [JArr [JNum (Fin 400000), JNum (Fin 400000)],
                                    JArr [JNum (Fin (27 / 2)), JNum (Fin (239 / 5))]])]) =
   Inr (JObj [(''type'', JStr ''LineString''),
              (''coordinates'', JArr [JArr [JNum (Fin (40 / 3)), JNum (Fin (95 / 2))],
                                      JArr [JNum (Fin (400009 / 50000)),
                                            JNum (Fin (8120913 / 185000))]])])"
  by (simp add: transformGeometry_def isWGS84_def extractFirstCoordinate_def isValidWGS84_def
      transformLeaf_def tryTransform_def sampleProj4_def js_ge_def Let_def)

text \<open>
  Claim C2, amended.  When the first leaf coordinate of a geometry is valid WGS84,
  \<open>transformGeometry\<close> returns the geometry as it is: no projection is applied to any of
  its leaves, whatever the other leaves contain.
\<close>

theorem transformGeometry_first_leaf_valid:
  assumes "extractFirstCoordinate geometry = Inr first" and "isValidWGS84 first"
  shows "transformGeometry P geometry = Inr geometry"
  using assms by (rule transformGeometry_unchanged)

theorem transformGeometry_first_leaf_valid_witness:
  "transformGeometry sampleProj4
     (JObj [(''type'', JStr ''LineString''),
            (''coordinates'', JArr [JArr [JNum (Fin (27 / 2)), JNum (Fin (239 / 5))],
                                    JArr [JNum (Fin 400000), JNum (Fin 400000)]])]) =
   Inr (JObj [(''type'', JStr ''LineString''),
            (''coordinates'', JArr [JArr [JNum (Fin (27 / 2)), JNum (Fin (239 / 5))],
                                    JArr [JNum (Fin 400000), JNum (Fin 400000)]])])"
proof -
  let ?g = "JObj [(''type'', JStr ''LineString''),
            (''coordinates'', JArr [JArr [JNum (Fin (27 / 2)), JNum (Fin (239 / 5))],
                                    JArr [JNum (Fin 400000), JNum (Fin 400000)]])]"
  have f: "extractFirstCoordinate ?g = Inr (JArr [JNum (Fin (27 / 2)), JNum (Fin (239 / 5))])"
    by (simp add: extractFirstCoordinate_def)
  have v: "isValidWGS84 (JArr [JNum (Fin (27 / 2)), JNum (Fin (239 / 5))])"
    by (simp add: isValidWGS84_def js_ge_def)
  from transformGeometry_first_leaf_valid [OF f v] show ?thesis .
qed



text \<open>
  Claim C6 fails as stated: a geometry that is not \<open>null\<close> and has no coordinates makes
  \<open>transformGeometry\<close> read element 0 of \<open>undefined\<close>, outside any \<open>try\<close>.
\<close>

theorem transformGeometry_total_counterexample:
  "transformGeometry sampleProj4 (JObj [(''type'', JStr ''Point'')]) = Inl TypeError"
  by (simp add: transformGeometry_def isWGS84_def extractFirstCoordinate_def isValidWGS84_def)

text \<open>
  Claim C6, amended.  \<open>transformGeometry\<close> returns a value, for every behaviour of the
  projection library, exactly when the geometry is \<open>null\<close> (or another falsy value), or
  its first leaf coordinate is valid WGS84, or its coordinates nesting can be entered: no
  level of the nesting is \<open>null\<close> or \<open>undefined\<close> (missing coordinates are \<open>undefined\<close>),
  and none is an object that is no array but has an array as its element 0.  An exception
  in a candidate projection makes \<open>tryTransform\<close> answer \<open>null\<close> for that candidate;
  when it is the first candidate, the second one is tried.
\<close>

theorem transformGeometry_total:
  "((\<exists>r. transformGeometry P geometry = Inr r) \<longleftrightarrow>
      \<not> truthy geometry \<or>
      (\<exists>first. extractFirstCoordinate geometry = Inr first \<and> isValidWGS84 first) \<or>
      nestWithoutNull (fieldOf geometry ''coordinates'')) \<and>
   (\<not> truthy geometry \<longrightarrow> transformGeometry P geometry = Inr JNull) \<and>
   (\<forall>name leaf e. P name leaf = Inl e \<longrightarrow> tryTransform P leaf name = JNull) \<and>
   (\<forall>leaf e. P ''EPSG:31287'' leaf = Inl e \<longrightarrow>
      transformLeaf P leaf =
        (if truthy (tryTransform P leaf ''EPSG:31259'') then tryTransform P leaf ''EPSG:31259''
         else leaf))"
proof (intro conjI allI impI)
  obtain first where f: "extractFirstCoordinate geometry = Inr first"
    using extractFirstCoordinate_total by blast
  show "(\<exists>r. transformGeometry P geometry = Inr r) \<longleftrightarrow>
      \<not> truthy geometry \<or>
      (\<exists>first. extractFirstCoordinate geometry = Inr first \<and> isValidWGS84 first) \<or>
      nestWithoutNull (fieldOf geometry ''coordinates'')"
  proof (cases "truthy geometry")
    case False
    then show ?thesis by (simp add: transformGeometry_def)
  next
    case True
    show ?thesis
    proof (cases "isValidWGS84 first")
      case v: True
      with f have "transformGeometry P geometry = Inr geometry"
        by (rule transformGeometry_unchanged)
      with f v show ?thesis by auto
    next
      case v: False
      note t = transformGeometry_transforms [OF True f v, of P]
      show ?thesis
      proof (cases "nestWithoutNull (fieldOf geometry ''coordinates'')")
        case n: True
        then obtain ps where "geometry = JObj ps"
          using nestWithoutNull_object by blast
        with t n show ?thesis by simp
      next
        case n: False
        with t True f v show ?thesis by auto
      qed
    qed
  qed
next
  assume "\<not> truthy geometry"
  then show "transformGeometry P geometry = Inr JNull"
    by (simp add: transformGeometry_def)
next
  fix name leaf e
  assume "P name leaf = Inl e"
  then show "tryTransform P leaf name = JNull"
    by (rule tryTransform_raises)
next
  fix leaf e
  assume "P ''EPSG:31287'' leaf = Inl e"
  then have "tryTransform P leaf ''EPSG:31287'' = JNull"
    by (rule tryTransform_raises)
  then show "transformLeaf P leaf =
        (if truthy (tryTransform P leaf ''EPSG:31259'') then tryTransform P leaf ''EPSG:31259''
         else leaf)"
    by (simp add: transformLeaf_def Let_def isValidWGS84_def)
qed

theorem transformGeometry_total_witness:
  "transformGeometry sampleProj4 JNull = Inr JNull \<and>
   (\<exists>r. transformGeometry sampleProj4
      (JObj [(''type'', JStr ''Polygon''),
             (''coordinates'', JArr [JArr [JArr [JNum (Fin 400000), JNum (Fin 400000)],
                                          JArr [JNum NaN, JStr ''x''], JArr []]])]) = Inr r) \<and>
   tryTransform sampleProj4 (JArr [JNum NaN, JStr ''x'']) ''EPSG:31287'' = JNull"
proof -
  let ?g = "JObj [(''type'', JStr ''Polygon''),
             (''coordinates'', JArr [JArr [JArr [JNum (Fin 400000), JNum (Fin 400000)],
                                          JArr [JNum NaN, JStr ''x''], JArr []]])]"
  have n: "nestWithoutNull (fieldOf ?g ''coordinates'')"
    by (simp add: fieldOf_def)
  have e: "sampleProj4 ''EPSG:31287'' (JArr [JNum NaN, JStr ''x'']) = Inl LibraryError"
    by (simp add: sampleProj4_def)
  have 1: "transformGeometry sampleProj4 JNull = Inr JNull"
    using transformGeometry_total [of sampleProj4 JNull] by simp
  have 2: "\<exists>r. transformGeometry sampleProj4 ?g = Inr r"
    using n transformGeometry_total [of sampleProj4 ?g] by blast
  have 3: "tryTransform sampleProj4 (JArr [JNum NaN, JStr ''x'']) ''EPSG:31287'' = JNull"
    using e transformGeometry_total [of sampleProj4 JNull] by blast
  from 1 2 3 show ?thesis by blast
qed

subsection \<open>Simplification\<close>












subsection \<open>Counters of the groundwater import\<close>

lemma groundwaterFeature_geometry:
  "groundwaterFeature P B S accepts area feature =
     andThen (featureGeometry P feature) (\<lambda>geometry.
       if \<not> isValidGeoJSON geometry then Inr None
       else if \<not> boundsIntersectArea area (getGeometryBounds B geometry) then Inr None
       else
         andThen (getGeometryComplexity geometry) (\<lambda>n.
         andThen (if n > 1000 then simplifyGeometry S geometry (roundDouble (1 / 1000)) else Inr geometry)
           (\<lambda>simplifiedGeom.
         andThen (getField feature ''properties'') (\<lambda>properties.
         andThen (getField properties ''Name'') (\<lambda>name.
         andThen (getField properties ''Zone'') (\<lambda>zone.
           (let r = \<lparr>area_name = orElse name (JStr ''Groundwater Protection Area''),
                     protection_zone = orElse zone (JStr ''Protected''),
                     area_geom = simplifiedGeom, area_properties = properties\<rparr>
            in if accepts r then Inr (Some r) else Inl LibraryError)))))))"
  by (simp add: groundwaterFeature_def featureGeometry_def andThen_def split: sum.splits)

lemma malformedFeature_skipped:
  "malformedFeature P feature \<Longrightarrow>
     groundwaterFeature P B S accepts area feature = Inr (Some r) \<Longrightarrow> False"
  by (auto simp: malformedFeature_def groundwaterFeature_geometry andThen_def split: sum.splits)

lemma outsideFeature_skipped:
  "outsideFeature P B area feature \<Longrightarrow>
     groundwaterFeature P B S accepts area feature = Inr None"
  by (auto simp: outsideFeature_def groundwaterFeature_geometry andThen_def split: sum.splits)

lemma countCoords_defined:
  "checkCoords c = Inr True \<Longrightarrow> \<exists>n. countCoords c k = Inr n"
  "everyCheckCoords cs = Inr True \<Longrightarrow> \<exists>n. forEachCountCoords cs k = Inr n"
proof (induction c and cs arbitrary: k and k rule: checkCoords_everyCheckCoords.induct)
  case (4 c0 rest)
  show ?case
  proof (cases "isArray c0")
    case True
    with 4(2) have "everyCheckCoords (c0 # rest) = Inr True" by simp
    with 4(1) [OF True, of k] obtain n where "forEachCountCoords (c0 # rest) k = Inr n"
      by blast
    with True show ?thesis by simp
  next
    case False
    then show ?thesis by simp
  qed
next
  case (5 ps)
  then show ?case by (simp split: option.splits if_splits)
next
  case (10 c cs)
  from 10(3) have c: "checkCoords c = Inr True" and cs: "everyCheckCoords cs = Inr True"
    by (auto split: sum.splits if_splits)
  from 10(1) [OF c, of k] obtain n where n: "countCoords c k = Inr n" by blast
  from 10(2) [OF c _ cs, of n] obtain m where "forEachCountCoords cs n = Inr m" by auto
  with n show ?case by simp
qed (simp_all split: if_splits)

lemma isValidGeoJSON_complexity:
  assumes "isValidGeoJSON geometry"
  shows "\<exists>n. getGeometryComplexity geometry = Inr n"
proof -
  from assms obtain coords where "getField geometry ''coordinates'' = Inr coords"
    and "checkCoords coords = Inr True"
    by (auto simp add: isValidGeoJSON_def split: if_splits sum.splits)
  with countCoords_defined(1) [of coords 0] show ?thesis
    by (simp add: getGeometryComplexity_def)
qed

text \<open>A feature that is valid and inside the bounds is inserted when the database accepts
  its row.\<close>

lemma validInsideFeature_inserted:
  assumes "validInsideFeature P B area feature"
    and "\<And>r. area_properties r = fieldOf feature ''properties'' \<Longrightarrow> accepts r"
  shows "\<exists>r. groundwaterFeature P B S accepts area feature = Inr (Some r)"
proof -
  let ?properties = "fieldOf feature ''properties''"
  from assms(1) have p: "?properties \<noteq> JNull" "?properties \<noteq> JUndefined"
    by (simp_all add: validInsideFeature_def)
  from assms(1) obtain geometry where g: "featureGeometry P feature = Inr geometry"
    "isValidGeoJSON geometry" "boundsIntersectArea area (getGeometryBounds B geometry)"
    by (auto simp add: validInsideFeature_def split: sum.splits)
  from g(2) obtain n where n: "getGeometryComplexity geometry = Inr n"
    using isValidGeoJSON_complexity by blast
  have "\<exists>simplifiedGeom.
      (if n > 1000 then simplifyGeometry S geometry (roundDouble (1 / 1000)) else Inr geometry) =
        Inr simplifiedGeom"
    by (cases "simplifyAttempt S geometry (roundDouble (1 / 1000))")
      (simp_all add: simplifyGeometry_def)
  then obtain simplifiedGeom where sg:
    "(if n > 1000 then simplifyGeometry S geometry (roundDouble (1 / 1000)) else Inr geometry) =
       Inr simplifiedGeom"
    by blast
  from p(2) have "feature \<noteq> JNull" and "feature \<noteq> JUndefined"
    by (auto simp add: fieldOf_def)
  then have fp: "getField feature ''properties'' = Inr ?properties"
    by (rule getField_fieldOf)
  from p have pn: "getField ?properties name = Inr (fieldOf ?properties name)" for name
    by (rule getField_fieldOf)
  let ?r = "\<lparr>area_name = orElse (fieldOf ?properties ''Name'') (JStr ''Groundwater Protection Area''),
            protection_zone = orElse (fieldOf ?properties ''Zone'') (JStr ''Protected''),
            area_geom = simplifiedGeom, area_properties = ?properties\<rparr>"
  have "accepts ?r" by (rule assms(2)) simp
  with g n sg fp pn have "groundwaterFeature P B S accepts area feature = Inr (Some ?r)"
    by (simp add: groundwaterFeature_geometry andThen_def Let_def)
  then show ?thesis by blast
qed

text \<open>While the cap is not reached, every feature is counted once: as imported when its
  row is inserted, as skipped otherwise.\<close>

lemma groundwaterLoop_counts:
  assumes "gw_processed run + length features \<le> maxFeatures"
  shows "gw_imported (groundwaterLoop P B S accepts area maxFeatures features run) =
      gw_imported run +
        length (filter (\<lambda>f. \<exists>r. groundwaterFeature P B S accepts area f = Inr (Some r)) features) \<and>
    gw_skipped (groundwaterLoop P B S accepts area maxFeatures features run) =
      gw_skipped run +
        length (filter (\<lambda>f. \<not> (\<exists>r. groundwaterFeature P B S accepts area f = Inr (Some r))) features)"
  using assms
proof (induction features arbitrary: run)
  case Nil
  then show ?case by simp
next
  case (Cons f features)
  then have lt: "\<not> maxFeatures \<le> gw_processed run" by simp
  show ?case
  proof (cases "groundwaterFeature P B S accepts area f")
    case (Inl e)
    let ?run = "run\<lparr>gw_processed := Suc (gw_processed run), gw_skipped := Suc (gw_skipped run)\<rparr>"
    have "gw_processed ?run + length features \<le> maxFeatures" using Cons.prems by simp
    from Cons.IH [OF this] Inl lt show ?thesis by (simp add: Let_def)
  next
    case (Inr res)
    show ?thesis
    proof (cases res)
      case None
      let ?run = "run\<lparr>gw_processed := Suc (gw_processed run), gw_skipped := Suc (gw_skipped run)\<rparr>"
      have "gw_processed ?run + length features \<le> maxFeatures" using Cons.prems by simp
      from Cons.IH [OF this] Inr None lt show ?thesis by (simp add: Let_def)
    next
      case (Some r)
      let ?run = "run\<lparr>gw_processed := Suc (gw_processed run),
        gw_imported := Suc (gw_imported run), gw_inserted := gw_inserted run @ [r]\<rparr>"
      have "gw_processed ?run + length features \<le> maxFeatures" using Cons.prems by simp
      from Cons.IH [OF this] Inr Some lt show ?thesis by (simp add: Let_def)
    qed
  qed
qed

lemma importGroundwaterFile_counts:
  assumes "length features \<le> 5000"
  shows "groundwaterAreas (importGroundwaterFile P B S accepts area isProduction features st) =
      groundwaterAreas st +
        length (filter (\<lambda>f. \<exists>r. groundwaterFeature P B S accepts area f = Inr (Some r)) features) \<and>
    filteredOutByArea (importGroundwaterFile P B S accepts area isProduction features st) =
      filteredOutByArea st +
        length (filter (\<lambda>f. \<not> (\<exists>r. groundwaterFeature P B S accepts area f = Inr (Some r))) features) \<and>
    errors (importGroundwaterFile P B S accepts area isProduction features st) = errors st"
proof -
  let ?run0 = "\<lparr>gw_imported = 0, gw_processed = 0, gw_skipped = 0, gw_inserted = []\<rparr>"
  have "gw_processed ?run0 + length features \<le> (if isProduction then 5000 else 50000)"
    using assms by simp
  from groundwaterLoop_counts [OF this, of P B S accepts area]
  show ?thesis by (simp add: importGroundwaterFile_def Let_def)
qed

text \<open>
  Claim C3 fails as stated: no importer counts a record as an error (\<open>errors\<close> is only
  incremented when the whole run fails), and the groundwater importer counts the malformed
  feature and the out-of-bounds feature in the same counter \<open>skipped\<close>, which is added to
  \<open>filteredOutByArea\<close>.  For a multi-polygon inside the bounds, one with a coordinate that
  is not a number and one outside the bounds, the counters are 1 imported, 0 errors and
  2 filtered by area.
\<close>

theorem import_scenario_counterexample:
  "groundwaterAreas
     (importGroundwaterFile sampleProj4 sampleBbox (\<lambda>g t. Inl LibraryError) (\<lambda>r. True)
        (Some \<lparr>minLon = Fin 12, minLat = Fin 46, maxLon = Fin 15, maxLat = Fin 49\<rparr>) True
        [multiPolygonFeature [JArr [JNum (Fin 13), JNum (Fin 47)], JArr [JNum (Fin 14), JNum (Fin 47)],
           JArr [JNum (Fin 14), JNum (Fin 48)], JArr [JNum (Fin 13), JNum (Fin 47)]],
         multiPolygonFeature [JArr [JNum (Fin 13), JNum (Fin 47)], JArr [JNum (Fin 14), JNum NaN],
           JArr [JNum (Fin 14), JNum (Fin 48)], JArr [JNum (Fin 13), JNum (Fin 47)]],
         multiPolygonFeature [JArr [JNum (Fin 16), JNum (Fin 48)], JArr [JNum (Fin 17), JNum (Fin 48)],
           JArr [JNum (Fin 17), JNum (Fin 49)], JArr [JNum (Fin 16), JNum (Fin 48)]]]
        initialStats) = 1 \<and>
   errors
     (importGroundwaterFile sampleProj4 sampleBbox (\<lambda>g t. Inl LibraryError) (\<lambda>r. True)
        (Some \<lparr>minLon = Fin 12, minLat = Fin 46, maxLon = Fin 15, maxLat = Fin 49\<rparr>) True
        [multiPolygonFeature [JArr [JNum (Fin 13), JNum (Fin 47)], JArr [JNum (Fin 14), JNum (Fin 47)],
           JArr [JNum (Fin 14), JNum (Fin 48)], JArr [JNum (Fin 13), JNum (Fin 47)]],
         multiPolygonFeature [JArr [JNum (Fin 13), JNum (Fin 47)], JArr [JNum (Fin 14), JNum NaN],
           JArr [JNum (Fin 14), JNum (Fin 48)], JArr [JNum (Fin 13), JNum (Fin 47)]],
         multiPolygonFeature [JArr [JNum (Fin 16), JNum (Fin 48)], JArr [JNum (Fin 17), JNum (Fin 48)],
           JArr [JNum (Fin 17), JNum (Fin 49)], JArr [JNum (Fin 16), JNum (Fin 48)]]]
        initialStats) = 0 \<and>
   filteredOutByArea
     (importGroundwaterFile sampleProj4 sampleBbox (\<lambda>g t. Inl LibraryError) (\<lambda>r. True)
        (Some \<lparr>minLon = Fin 12, minLat = Fin 46, maxLon = Fin 15, maxLat = Fin 49\<rparr>) True
        [multiPolygonFeature [JArr [JNum (Fin 13), JNum (Fin 47)], JArr [JNum (Fin 14), JNum (Fin 47)],
           JArr [JNum (Fin 14), JNum (Fin 48)], JArr [JNum (Fin 13), JNum (Fin 47)]],
         multiPolygonFeature [JArr [JNum (Fin 13), JNum (Fin 47)], JArr [JNum (Fin 14), JNum NaN],
           JArr [JNum (Fin 14), JNum (Fin 48)], JArr [JNum (Fin 13), JNum (Fin 47)]],
         multiPolygonFeature [JArr [JNum (Fin 16), JNum (Fin 48)], JArr [JNum (Fin 17), JNum (Fin 48)],
           JArr [JNum (Fin 17), JNum (Fin 49)], JArr [JNum (Fin 16), JNum (Fin 48)]]]
        initialStats) = 2"
proof -
  let ?S = "\<lambda>g t. Inl LibraryError :: error + json"
  let ?area = "Some \<lparr>minLon = Fin 12, minLat = Fin 46, maxLon = Fin 15, maxLat = Fin 49\<rparr>"
  let ?a = "multiPolygonFeature [JArr [JNum (Fin 13), JNum (Fin 47)], JArr [JNum (Fin 14), JNum (Fin 47)],
      JArr [JNum (Fin 14), JNum (Fin 48)], JArr [JNum (Fin 13), JNum (Fin 47)]]"
  let ?b = "multiPolygonFeature [JArr [JNum (Fin 13), JNum (Fin 47)], JArr [JNum (Fin 14), JNum NaN],
      JArr [JNum (Fin 14), JNum (Fin 48)], JArr [JNum (Fin 13), JNum (Fin 47)]]"
  let ?c = "multiPolygonFeature [JArr [JNum (Fin 16), JNum (Fin 48)], JArr [JNum (Fin 17), JNum (Fin 48)],
      JArr [JNum (Fin 17), JNum (Fin 49)], JArr [JNum (Fin 16), JNum (Fin 48)]]"
  have a: "\<exists>r. groundwaterFeature sampleProj4 sampleBbox ?S (\<lambda>r. True) ?area ?a = Inr (Some r)"
    by (simp add: groundwaterFeature_def andThen_def multiPolygonFeature_def transformGeometry_def
        isWGS84_def extractFirstCoordinate_def isValidWGS84_def isValidGeoJSON_def
        getGeometryBounds_def sampleBbox_def widenByLeaf_def boundsIntersectArea_def
        getGeometryComplexity_def js_ge_def js_gt_def Let_def)
  have b: "groundwaterFeature sampleProj4 sampleBbox ?S (\<lambda>r. True) ?area ?b = Inr None"
    by (simp add: groundwaterFeature_def andThen_def multiPolygonFeature_def transformGeometry_def
        isWGS84_def extractFirstCoordinate_def isValidWGS84_def isValidGeoJSON_def
        js_ge_def Let_def)
  have c: "groundwaterFeature sampleProj4 sampleBbox ?S (\<lambda>r. True) ?area ?c = Inr None"
    by (simp add: groundwaterFeature_def andThen_def multiPolygonFeature_def transformGeometry_def
        isWGS84_def extractFirstCoordinate_def isValidWGS84_def isValidGeoJSON_def
        getGeometryBounds_def sampleBbox_def widenByLeaf_def boundsIntersectArea_def
        js_ge_def js_gt_def Let_def)
  have l: "length [?a, ?b, ?c] \<le> 5000" by simp
  from importGroundwaterFile_counts [OF l, of sampleProj4 sampleBbox ?S "\<lambda>r. True" ?area True initialStats]
    a b c
  show ?thesis by (simp add: initialStats_def)
qed

text \<open>
  Claim C3, amended.  Importing into the groundwater table a shapefile source of three
  features, one that is valid and inside the bounds and whose row the database accepts,
  one with a malformed coordinate and one that is valid but outside the bounds, adds
  exactly 1 to the imported counter and leaves the error counter as it was, in any
  processing order; the out-of-bounds feature is counted in \<open>filteredOutByArea\<close>, a
  counter separate from \<open>errors\<close>, and so is the malformed one, so that 2 is added to it.
\<close>

theorem import_scenario:
  assumes "validInsideFeature P B area a"
    and "\<And>r. area_properties r = fieldOf a ''properties'' \<Longrightarrow> accepts r"
    and "malformedFeature P b"
    and "outsideFeature P B area c"
    and "features \<in> {[a, b, c], [a, c, b], [b, a, c], [b, c, a], [c, a, b], [c, b, a]}"
  shows
    "groundwaterAreas (importGroundwaterFile P B S accepts area isProduction features st) =
       groundwaterAreas st + 1 \<and>
     errors (importGroundwaterFile P B S accepts area isProduction features st) = errors st \<and>
     filteredOutByArea (importGroundwaterFile P B S accepts area isProduction features st) =
       filteredOutByArea st + 2"
proof -
  let ?ins = "\<lambda>f. \<exists>r. groundwaterFeature P B S accepts area f = Inr (Some r)"
  have a: "?ins a" using assms(1,2) by (rule validInsideFeature_inserted)
  have b: "\<not> ?ins b" using assms(3) malformedFeature_skipped by blast
  have c: "\<not> ?ins c" using outsideFeature_skipped [OF assms(4), of S accepts] by simp
  have l: "length features \<le> 5000" using assms(5) by auto
  have n: "length (filter ?ins features) = 1 \<and> length (filter (\<lambda>f. \<not> ?ins f) features) = 2"
    using assms(5) a b c by auto
  from importGroundwaterFile_counts [OF l, of P B S accepts area isProduction st] n
  show ?thesis by simp
qed

theorem import_scenario_witness:
  "groundwaterAreas
     (importGroundwaterFile sampleProj4 sampleBbox (\<lambda>g t. Inl LibraryError) (\<lambda>r. True)
        (Some \<lparr>minLon = Fin 12, minLat = Fin 46, maxLon = Fin 15, maxLat = Fin 49\<rparr>) False
        [multiPolygonFeature [JArr [JNum (Fin 16), JNum (Fin 48)], JArr [JNum (Fin 17), JNum (Fin 48)],
           JArr [JNum (Fin 17), JNum (Fin 49)], JArr [JNum (Fin 16), JNum (Fin 48)]],
         multiPolygonFeature [JArr [JNum (Fin 13), JNum (Fin 47)], JArr [JNum (Fin 14), JNum NaN],
           JArr [JNum (Fin 14), JNum (Fin 48)], JArr [JNum (Fin 13), JNum (Fin 47)]],
         multiPolygonFeature [JArr [JNum (Fin 13), JNum (Fin 47)], JArr [JNum (Fin 14), JNum (Fin 47)],
           JArr [JNum (Fin 14), JNum (Fin 48)], JArr [JNum (Fin 13), JNum (Fin 47)]]]
        initialStats) = 1 \<and>
   filteredOutByArea
     (importGroundwaterFile sampleProj4 sampleBbox (\<lambda>g t. Inl LibraryError) (\<lambda>r. True)
        (Some \<lparr>minLon = Fin 12, minLat = Fin 46, maxLon = Fin 15, maxLat = Fin 49\<rparr>) False
        [multiPolygonFeature [JArr [JNum (Fin 16), JNum (Fin 48)], JArr [JNum (Fin 17), JNum (Fin 48)],
           JArr [JNum (Fin 17), JNum (Fin 49)], JArr [JNum (Fin 16), JNum (Fin 48)]],
         multiPolygonFeature [JArr [JNum (Fin 13), JNum (Fin 47)], JArr [JNum (Fin 14), JNum NaN],
           JArr [JNum (Fin 14), JNum (Fin 48)], JArr [JNum (Fin 13), JNum (Fin 47)]],
         multiPolygonFeature [JArr [JNum (Fin 13), JNum (Fin 47)], JArr [JNum (Fin 14), JNum (Fin 47)],
           JArr [JNum (Fin 14), JNum (Fin 48)], JArr [JNum (Fin 13), JNum (Fin 47)]]]
        initialStats) = 2"
proof -
  let ?S = "\<lambda>g t. Inl LibraryError :: error + json"
  let ?area = "Some \<lparr>minLon = Fin 12, minLat = Fin 46, maxLon = Fin 15, maxLat = Fin 49\<rparr>"
  let ?a = "multiPolygonFeature [JArr [JNum (Fin 13), JNum (Fin 47)], JArr [JNum (Fin 14), JNum (Fin 47)],
      JArr [JNum (Fin 14), JNum (Fin 48)], JArr [JNum (Fin 13), JNum (Fin 47)]]"
  let ?b = "multiPolygonFeature [JArr [JNum (Fin 13), JNum (Fin 47)], JArr [JNum (Fin 14), JNum NaN],
      JArr [JNum (Fin 14), JNum (Fin 48)], JArr [JNum (Fin 13), JNum (Fin 47)]]"
  let ?c = "multiPolygonFeature [JArr [JNum (Fin 16), JNum (Fin 48)], JArr [JNum (Fin 17), JNum (Fin 48)],
      JArr [JNum (Fin 17), JNum (Fin 49)], JArr [JNum (Fin 16), JNum (Fin 48)]]"
  have a: "validInsideFeature sampleProj4 sampleBbox ?area ?a"
    by (simp add: validInsideFeature_def featureGeometry_def fieldOf_def
        multiPolygonFeature_def transformGeometry_def
        isWGS84_def extractFirstCoordinate_def isValidWGS84_def isValidGeoJSON_def
        getGeometryBounds_def sampleBbox_def widenByLeaf_def boundsIntersectArea_def
        js_ge_def js_gt_def Let_def)
  have d: "\<And>r :: groundwaterArea. area_properties r = fieldOf ?a ''properties'' \<Longrightarrow> True"
    by simp
  have b: "malformedFeature sampleProj4 ?b"
    by (simp add: malformedFeature_def featureGeometry_def multiPolygonFeature_def
        transformGeometry_def isWGS84_def extractFirstCoordinate_def isValidWGS84_def
        isValidGeoJSON_def js_ge_def Let_def)
  have c: "outsideFeature sampleProj4 sampleBbox ?area ?c"
    by (simp add: outsideFeature_def featureGeometry_def multiPolygonFeature_def
        transformGeometry_def
        isWGS84_def extractFirstCoordinate_def isValidWGS84_def isValidGeoJSON_def
        getGeometryBounds_def sampleBbox_def widenByLeaf_def boundsIntersectArea_def
        js_ge_def js_gt_def Let_def)
  have m: "[?c, ?b, ?a] \<in> {[?a, ?b, ?c], [?a, ?c, ?b], [?b, ?a, ?c], [?b, ?c, ?a], [?c, ?a, ?b], [?c, ?b, ?a]}"
    by simp
  from import_scenario [where accepts = "\<lambda>r. True" and S = ?S and isProduction = False
      and st = initialStats, OF a d b c m]
  show ?thesis by (simp add: initialStats_def)
qed

text \<open>The importers of the point tables do not count a malformed record at all: for the
  CO2 sources, a row inside the bounds, a row without a readable longitude and a row
  outside the bounds give 1 imported, 1 filtered by area and no error.\<close>

lemma importCO2Sources_scenario:
  "co2Sources
     (importCO2Sources parseFloatOfNumber (\<lambda>r. True)
        (Some \<lparr>minLon = Fin 12, minLat = Fin 46, maxLon = Fin 15, maxLat = Fin 49\<rparr>)
        (Some [[(''Longitude'', JNum (Fin 13)), (''Latitude'', JNum (Fin 48))],
               [(''Longitude'', JStr ''x''), (''Latitude'', JNum (Fin 48))],
               [(''Longitude'', JNum (Fin 16)), (''Latitude'', JNum (Fin 48))]])
        initialStats) = 1 \<and>
   filteredOutByArea
     (importCO2Sources parseFloatOfNumber (\<lambda>r. True)
        (Some \<lparr>minLon = Fin 12, minLat = Fin 46, maxLon = Fin 15, maxLat = Fin 49\<rparr>)
        (Some [[(''Longitude'', JNum (Fin 13)), (''Latitude'', JNum (Fin 48))],
               [(''Longitude'', JStr ''x''), (''Latitude'', JNum (Fin 48))],
               [(''Longitude'', JNum (Fin 16)), (''Latitude'', JNum (Fin 48))]])
        initialStats) = 1 \<and>
   errors
     (importCO2Sources parseFloatOfNumber (\<lambda>r. True)
        (Some \<lparr>minLon = Fin 12, minLat = Fin 46, maxLon = Fin 15, maxLat = Fin 49\<rparr>)
        (Some [[(''Longitude'', JNum (Fin 13)), (''Latitude'', JNum (Fin 48))],
               [(''Longitude'', JStr ''x''), (''Latitude'', JNum (Fin 48))],
               [(''Longitude'', JNum (Fin 16)), (''Latitude'', JNum (Fin 48))]])
        initialStats) = 0"
  by (simp add: importCO2Sources_def co2SourceRow_def cell_def isValidWGS84_def
      isWithinAreaBounds_def js_ge_def initialStats_def Let_def)

end
